theory Spec2Isabelle
  imports Complex_Main
begin

section \<open>The JavaScript runtime, as far as the two agents use it\<close>

text \<open>
  Both agents are asynchronous request handlers that run one request from start to end
  (every call is awaited in sequence). A handler is modelled as a function from the request
  and a world to its HTTP response and the new world. The world holds what the handler
  reads and writes outside its arguments: the system clock, the random generator, the state
  of the external collaborators and the log of the calls made to them.

  Times are milliseconds since the epoch. The formatting and parsing of dates, the matching
  of regular expressions and the conversion of a string to a number belong to the runtime and
  its libraries and are parameters of the model.
\<close>

record runtime =
  toISOString :: "int \<Rightarrow> string"
  Date_parse :: "string \<Rightarrow> int option"
  regex_match :: "nat \<Rightarrow> string \<Rightarrow> string list option"
  number_of_string :: "string \<Rightarrow> rat option"

record ('x, 'c) world =
  clock :: "nat \<Rightarrow> int"
  reads :: nat
  random :: "nat \<Rightarrow> string"
  draws :: nat
  ext :: 'x
  calls :: "'c list"

text \<open>\<open>Date.now()\<close> and \<open>new Date()\<close>: the next reading of the clock.\<close>

definition Date_now :: "('x, 'c) world \<Rightarrow> int \<times> ('x, 'c) world" where
  "Date_now w = (clock w (reads w), w\<lparr>reads := Suc (reads w)\<rparr>)"

text \<open>\<open>Math.random().toString(36).substr(2, 9)\<close>: the next draw.\<close>

definition Math_random :: "('x, 'c) world \<Rightarrow> string \<times> ('x, 'c) world" where
  "Math_random w = (random w (draws w), w\<lparr>draws := Suc (draws w)\<rparr>)"

definition log_call :: "'c \<Rightarrow> ('x, 'c) world \<Rightarrow> ('x, 'c) world" where
  "log_call c w = w\<lparr>calls := calls w @ [c]\<rparr>"

text \<open>Truthiness of an optional string: \<open>undefined\<close> and \<open>""\<close> are falsy.\<close>

definition truthy :: "string option \<Rightarrow> bool" where
  "truthy s = (case s of None \<Rightarrow> False | Some v \<Rightarrow> v \<noteq> [])"

text \<open>\<open>a || b\<close> on strings.\<close>

definition or_else :: "string option \<Rightarrow> string \<Rightarrow> string" where
  "or_else s d = (case s of None \<Rightarrow> d | Some v \<Rightarrow> if v = [] then d else v)"

fun startsWith :: "string \<Rightarrow> string \<Rightarrow> bool" where
  "startsWith s [] = True"
| "startsWith [] (c # cs) = False"
| "startsWith (x # xs) (c # cs) = (x = c \<and> startsWith xs cs)"

text \<open>\<open>s.includes(sub)\<close>.\<close>

fun str_includes :: "string \<Rightarrow> string \<Rightarrow> bool" where
  "str_includes [] sub = (sub = [])"
| "str_includes (x # xs) sub = (startsWith (x # xs) sub \<or> str_includes xs sub)"

fun digits :: "nat \<Rightarrow> string" where
  "digits n =
     (if n < 10 then [''0123456789'' ! n] else digits (n div 10) @ [''0123456789'' ! (n mod 10)])"

declare digits.simps [simp del]

text \<open>\<open>String(n)\<close> of an integer.\<close>

definition String_of_int :: "int \<Rightarrow> string" where
  "String_of_int i = (if i < 0 then CHR ''-'' # digits (nat (- i)) else digits (nat i))"

subsection \<open>Thrown values and the error handler\<close>

text \<open>
  A thrown value is an \<open>AppError\<close> (utils/errors.ts: message, status, code, details), some
  other \<open>Error\<close> with its name and message, or a value that is not an \<open>Error\<close>.
\<close>

datatype thrown =
  AppError string nat string "string list option"
| JsError string string
| NonError

fun instanceof_Error :: "thrown \<Rightarrow> bool" where
  "instanceof_Error NonError = False"
| "instanceof_Error _ = True"

fun error_message :: "thrown \<Rightarrow> string" where
  "error_message (AppError m s c d) = m"
| "error_message (JsError n m) = m"
| "error_message NonError = []"

record error_body =
  err_message :: string
  err_code :: string
  err_details :: "string list option"

record 'a response =
  status :: nat
  success :: bool
  data :: "'a option"
  error :: "error_body option"
  timestamp :: string

text \<open>
  \<open>middleware/errorHandler.ts\<close> of Agent A: the handler Express runs on \<open>next(error)\<close>.
\<close>

definition errorHandler ::
  "runtime \<Rightarrow> thrown \<Rightarrow> ('x, 'c) world \<Rightarrow> 'a response \<times> ('x, 'c) world" where
  "errorHandler rt err w =
     (let (t, w1) = Date_now w in
      ((case err of
         AppError m s c d \<Rightarrow>
           \<lparr>status = s, success = False, data = None,
            error = Some \<lparr>err_message = m, err_code = c, err_details = d\<rparr>,
            timestamp = toISOString rt t\<rparr>
       | JsError n m \<Rightarrow>
           (if n = ''ValidationError''
            then \<lparr>status = 400, success = False, data = None,
                  error = Some \<lparr>err_message = ''Validation failed'', err_code = ''VALIDATION_ERROR'',
                                err_details = Some [m]\<rparr>,
                  timestamp = toISOString rt t\<rparr>
            else \<lparr>status = 500, success = False, data = None,
                  error = Some \<lparr>err_message = ''Internal server error'', err_code = ''INTERNAL_ERROR'',
                                err_details = None\<rparr>,
                  timestamp = toISOString rt t\<rparr>)
       | NonError \<Rightarrow>
           \<lparr>status = 500, success = False, data = None,
            error = Some \<lparr>err_message = ''Internal server error'', err_code = ''INTERNAL_ERROR'',
                          err_details = None\<rparr>,
            timestamp = toISOString rt t\<rparr>), w1))"

text \<open>A handler's outcome: \<open>Inl\<close> is \<open>next(error)\<close>, \<open>Inr\<close> the response it sent itself.\<close>

definition respond ::
  "runtime \<Rightarrow> (thrown + 'a response) \<times> ('x, 'c) world \<Rightarrow> 'a response \<times> ('x, 'c) world" where
  "respond rt out =
     (case out of (Inl err, w) \<Rightarrow> errorHandler rt err w | (Inr r, w) \<Rightarrow> (r, w))"

text \<open>The user attached to the request by the token validation, and its scopes.\<close>

record user_info =
  userId :: "string option"
  scopes :: "string list option"

text \<open>\<open>userInfo?.scopes?.includes(scope)\<close>.\<close>

definition has_scope :: "user_info option \<Rightarrow> string \<Rightarrow> bool" where
  "has_scope u scope =
     (case u of None \<Rightarrow> False
      | Some i \<Rightarrow> (case scopes i of None \<Rightarrow> False | Some ss \<Rightarrow> scope \<in> set ss))"

section \<open>Agent B: the calendar service\<close>

text \<open>
  Modelled from the spec: the error handler of Agent B (\<open>middleware/errorHandler.ts\<close> of
  agent-b-calendar) is not among the sources. The spec gives every response the envelope
  \<open>{ success, data?, error?: {message, code, details?}, timestamp }\<close> and gives an error of
  the taxonomy its own HTTP status and code; the handler is taken to be the one of Agent A.
\<close>

definition calendar_errorHandler ::
  "runtime \<Rightarrow> thrown \<Rightarrow> ('x, 'c) world \<Rightarrow> 'a response \<times> ('x, 'c) world" where
  "calendar_errorHandler rt err w = errorHandler rt err w"

definition calendar_respond ::
  "runtime \<Rightarrow> (thrown + 'a response) \<times> ('x, 'c) world \<Rightarrow> 'a response \<times> ('x, 'c) world" where
  "calendar_respond rt out =
     (case out of (Inl err, w) \<Rightarrow> calendar_errorHandler rt err w | (Inr r, w) \<Rightarrow> (r, w))"

record reminders =
  useDefault :: bool
  overrides :: "(string \<times> nat) list option"

text \<open>The body of one draft as it arrives (\<open>eventData: any\<close>): every field may be missing.\<close>

record event_data =
  d_title :: "string option"
  d_description :: "string option"
  d_startTime :: "string option"
  d_endTime :: "string option"
  d_attendees :: "string option list option"
  d_location :: "string option"
  d_reminders :: "reminders option"

record CreateEventRequest =
  r_title :: string
  r_description :: "string option"
  r_startTime :: string
  r_endTime :: string
  r_attendees :: "string list option"
  r_location :: "string option"
  r_reminders :: "reminders option"

record CalendarEvent =
  e_id :: "string option"
  e_title :: string
  e_description :: "string option"
  e_startTime :: string
  e_endTime :: string
  e_attendees :: "string list option"
  e_location :: "string option"
  e_htmlLink :: "string option"
  e_status :: string

text \<open>The provider's event resource (\<open>calendar_v3.Schema$Event\<close>), the fields that are read.\<close>

record google_event =
  g_id :: "string option"
  g_summary :: "string option"
  g_description :: "string option"
  g_start_dateTime :: "string option"
  g_start_date :: "string option"
  g_end_dateTime :: "string option"
  g_end_date :: "string option"
  g_attendees :: "string option list option"
  g_location :: "string option"
  g_htmlLink :: "string option"
  g_status :: "string option"

text \<open>
  The calendar client, when one is configured: each call takes the provider's state and
  returns what the call returns or throws, with the provider's new state. The insert call
  receives the event the service builds from the request; that event is a function of the
  request and of the environment, so the provider is given the request itself.
\<close>

record 'p calendar_client =
  events_insert :: "'p \<Rightarrow> CreateEventRequest \<Rightarrow> (thrown + google_event) \<times> 'p"
  events_get :: "'p \<Rightarrow> string \<Rightarrow> (thrown + google_event option) \<times> 'p"
  events_delete :: "'p \<Rightarrow> string \<Rightarrow> (thrown + unit) \<times> 'p"

text \<open>The calls made to the Calendar Gateway (the methods of \<open>calendarService\<close>).\<close>

datatype gateway_call =
  CreateEvent CreateEventRequest
| GetEvent string
| DeleteEvent string

type_synonym 'p calendar_world = "('p, gateway_call) world"

subsection \<open>services/calendarService.ts\<close>

definition createMockEvent ::
  "CreateEventRequest \<Rightarrow> 'p calendar_world \<Rightarrow> CalendarEvent \<times> 'p calendar_world" where
  "createMockEvent eventData w =
     (let (t, w1) = Date_now w; (r, w2) = Math_random w1;
          mockId = ''mock_'' @ String_of_int t @ ''_'' @ r in
      (\<lparr>e_id = Some mockId, e_title = r_title eventData,
        e_description = r_description eventData,
        e_startTime = r_startTime eventData, e_endTime = r_endTime eventData,
        e_attendees = r_attendees eventData, e_location = r_location eventData,
        e_htmlLink = Some (''https://calendar.google.com/calendar/event?eid='' @ mockId),
        e_status = ''confirmed''\<rparr>, w2))"

text \<open>\<open>a || b || new Date().toISOString()\<close>: the clock is read only when both are falsy.\<close>

definition time_or_now ::
  "runtime \<Rightarrow> string option \<Rightarrow> string option \<Rightarrow> 'p calendar_world \<Rightarrow> string \<times> 'p calendar_world" where
  "time_or_now rt a b w =
     (if truthy a then (the a, w)
      else if truthy b then (the b, w)
      else (let (t, w1) = Date_now w in (toISOString rt t, w1)))"

definition mapToCalendarEvent ::
  "runtime \<Rightarrow> google_event \<Rightarrow> 'p calendar_world \<Rightarrow> CalendarEvent \<times> 'p calendar_world" where
  "mapToCalendarEvent rt googleEvent w =
     (let (st, w1) = time_or_now rt (g_start_dateTime googleEvent) (g_start_date googleEvent) w;
          (en, w2) = time_or_now rt (g_end_dateTime googleEvent) (g_end_date googleEvent) w1 in
      (\<lparr>e_id = g_id googleEvent,
        e_title = or_else (g_summary googleEvent) ''Untitled Event'',
        e_description = g_description googleEvent,
        e_startTime = st, e_endTime = en,
        e_attendees = map_option (\<lambda>as. map the (filter truthy as)) (g_attendees googleEvent),
        e_location = g_location googleEvent,
        e_htmlLink = g_htmlLink googleEvent,
        e_status = or_else (g_status googleEvent) ''confirmed''\<rparr>, w2))"

text \<open>The \<open>catch\<close> block of \<open>createEvent\<close>.\<close>

definition createEvent_catch ::
  "thrown \<Rightarrow> CreateEventRequest \<Rightarrow> 'p calendar_world \<Rightarrow> (thrown + CalendarEvent) \<times> 'p calendar_world" where
  "createEvent_catch err eventData w =
     (if instanceof_Error err \<and> str_includes (error_message err) ''invalid_grant''
      then (Inl (AppError ''Calendar authentication expired, please re-authenticate'' 401
                   ''CALENDAR_AUTH_EXPIRED'' None), w)
      else if instanceof_Error err \<and> str_includes (error_message err) ''insufficient permissions''
      then (Inl (AppError ''Insufficient permissions to create calendar events'' 403
                   ''CALENDAR_PERMISSIONS_ERROR'' None), w)
      else if instanceof_Error err \<and> str_includes (error_message err) ''Invalid value''
      then (Inl (AppError ''Invalid event data provided'' 400 ''INVALID_EVENT_DATA'' None), w)
      else (let (ev, w1) = createMockEvent eventData w in (Inr ev, w1)))"

definition calendarService_createEvent ::
  "runtime \<Rightarrow> 'p calendar_client option \<Rightarrow> CreateEventRequest \<Rightarrow> 'p calendar_world
     \<Rightarrow> (thrown + CalendarEvent) \<times> 'p calendar_world" where
  "calendarService_createEvent rt calendar eventData w0 =
     (let w = log_call (CreateEvent eventData) w0 in
      case calendar of
        None \<Rightarrow> (let (ev, w1) = createMockEvent eventData w in (Inr ev, w1))
      | Some client \<Rightarrow>
          (case events_insert client (ext w) eventData of
             (Inl err, p) \<Rightarrow> createEvent_catch err eventData (w\<lparr>ext := p\<rparr>)
           | (Inr resp, p) \<Rightarrow>
               (if \<not> truthy (g_id resp)
                then createEvent_catch
                       (AppError ''Failed to create calendar event - no ID returned'' 500
                          ''CALENDAR_CREATE_FAILED'' None) eventData (w\<lparr>ext := p\<rparr>)
                else (let (ev, w1) = mapToCalendarEvent rt resp (w\<lparr>ext := p\<rparr>) in (Inr ev, w1)))))"

definition getMockEvent ::
  "runtime \<Rightarrow> string \<Rightarrow> 'p calendar_world \<Rightarrow> CalendarEvent \<times> 'p calendar_world" where
  "getMockEvent rt eventId w =
     (let (now, w1) = Date_now w;
          startTime = now + 24 * 60 * 60 * 1000;
          endTime = startTime + 60 * 60 * 1000 in
      (\<lparr>e_id = Some eventId, e_title = ''Mock Event: '' @ eventId,
        e_description = Some ''This is a mock calendar event for demonstration purposes.'',
        e_startTime = toISOString rt startTime, e_endTime = toISOString rt endTime,
        e_attendees = None, e_location = None,
        e_htmlLink = Some (''https://calendar.google.com/calendar/event?eid='' @ eventId),
        e_status = ''confirmed''\<rparr>, w1))"

text \<open>\<open>getEvent\<close> returns the event or \<open>null\<close>; its \<open>catch\<close> block throws nothing.\<close>

definition calendarService_getEvent ::
  "runtime \<Rightarrow> 'p calendar_client option \<Rightarrow> string \<Rightarrow> 'p calendar_world
     \<Rightarrow> CalendarEvent option \<times> 'p calendar_world" where
  "calendarService_getEvent rt calendar eventId w0 =
     (let w = log_call (GetEvent eventId) w0 in
      case calendar of
        None \<Rightarrow> (let (ev, w1) = getMockEvent rt eventId w in (Some ev, w1))
      | Some client \<Rightarrow>
          (case events_get client (ext w) eventId of
             (Inr None, p) \<Rightarrow> (None, w\<lparr>ext := p\<rparr>)
           | (Inr (Some resp), p) \<Rightarrow>
               (let (ev, w1) = mapToCalendarEvent rt resp (w\<lparr>ext := p\<rparr>) in (Some ev, w1))
           | (Inl err, p) \<Rightarrow>
               (if instanceof_Error err \<and> str_includes (error_message err) ''Not Found''
                then (None, w\<lparr>ext := p\<rparr>)
                else (let (ev, w1) = getMockEvent rt eventId (w\<lparr>ext := p\<rparr>) in (Some ev, w1)))))"

definition calendarService_deleteEvent ::
  "'p calendar_client option \<Rightarrow> string \<Rightarrow> 'p calendar_world
     \<Rightarrow> (thrown + bool) \<times> 'p calendar_world" where
  "calendarService_deleteEvent calendar eventId w0 =
     (let w = log_call (DeleteEvent eventId) w0 in
      case calendar of
        None \<Rightarrow> (Inr True, w)
      | Some client \<Rightarrow>
          (case events_delete client (ext w) eventId of
             (Inr u, p) \<Rightarrow> (Inr True, w\<lparr>ext := p\<rparr>)
           | (Inl err, p) \<Rightarrow>
               (if instanceof_Error err \<and> str_includes (error_message err) ''Not Found''
                then (Inr False, w\<lparr>ext := p\<rparr>)
                else (Inl (AppError ''Failed to delete calendar event'' 500
                             ''CALENDAR_DELETE_FAILED'' None), w\<lparr>ext := p\<rparr>))))"

subsection \<open>controllers/calendarController.ts: create-events\<close>

definition default_reminders :: reminders where
  "default_reminders = \<lparr>useDefault = False, overrides = Some [(''email'', 24 * 60), (''popup'', 15)]\<rparr>"

definition enhanceEventData ::
  "runtime \<Rightarrow> event_data \<Rightarrow> 'p calendar_world \<Rightarrow> CreateEventRequest \<times> 'p calendar_world" where
  "enhanceEventData rt eventData w =
     (let (now, w1) = Date_now w;
          defaultStartTime = now + 60 * 60 * 1000;
          defaultEndTime = defaultStartTime + 60 * 60 * 1000 in
      (\<lparr>r_title = or_else (d_title eventData) ''Untitled Event'',
        r_description = Some (or_else (d_description eventData) []),
        r_startTime = or_else (d_startTime eventData) (toISOString rt defaultStartTime),
        r_endTime = or_else (d_endTime eventData) (toISOString rt defaultEndTime),
        r_attendees =
          Some (case d_attendees eventData of
                  None \<Rightarrow> []
                | Some as \<Rightarrow>
                    map the (filter (\<lambda>email. email \<noteq> None \<and> str_includes (the email) ''@'') as)),
        r_location = Some (or_else (d_location eventData) []),
        r_reminders =
          Some (case d_reminders eventData of None \<Rightarrow> default_reminders | Some r \<Rightarrow> r)\<rparr>, w1))"

text \<open>
  The \<open>for\<close> loop of \<open>createEvents\<close>: each draft is enhanced and created inside its own
  \<open>try\<close>; what \<open>createEvent\<close> throws is recorded with the draft and the loop goes on.
\<close>

fun createEvents_loop ::
  "runtime \<Rightarrow> 'p calendar_client option \<Rightarrow> event_data list \<Rightarrow> CalendarEvent list
     \<Rightarrow> (event_data \<times> string) list \<Rightarrow> 'p calendar_world
     \<Rightarrow> (CalendarEvent list \<times> (event_data \<times> string) list) \<times> 'p calendar_world" where
  "createEvents_loop rt calendar [] createdEvents errors w = ((createdEvents, errors), w)"
| "createEvents_loop rt calendar (eventData # rest) createdEvents errors w =
     (let (enhancedEvent, w1) = enhanceEventData rt eventData w in
      case calendarService_createEvent rt calendar enhancedEvent w1 of
        (Inr createdEvent, w2) \<Rightarrow>
          createEvents_loop rt calendar rest (createdEvents @ [createdEvent]) errors w2
      | (Inl eventError, w2) \<Rightarrow>
          createEvents_loop rt calendar rest createdEvents
            (errors @ [(eventData,
                        if instanceof_Error eventError then error_message eventError
                        else ''Unknown error'')]) w2)"

record create_events_data =
  created :: "CalendarEvent list"
  totalRequested :: "nat option"
  totalCreated :: "nat option"
  errors :: "(event_data \<times> string) list option"

text \<open>The request: its body, its route parameter, its bearer header, and the validated user.\<close>

record 'b request =
  body :: 'b
  eventId :: "string option"
  authorization :: "string option"
  user :: "user_info option"

text \<open>
  \<open>createEvents\<close>. The schema of \<open>validateCreateEventsRequest\<close> is a parameter: it maps the
  body to the error details or to the list of drafts.
\<close>

definition createEvents ::
  "runtime \<Rightarrow> ('b \<Rightarrow> string list + event_data list) \<Rightarrow> 'p calendar_client option
     \<Rightarrow> 'b request \<Rightarrow> 'p calendar_world
     \<Rightarrow> (thrown + create_events_data response) \<times> 'p calendar_world" where
  "createEvents rt validateCreateEventsRequest calendar req w =
     (case validateCreateEventsRequest (body req) of
        Inl details \<Rightarrow>
          (Inl (AppError ''Invalid request parameters'' 400 ''VALIDATION_ERROR'' (Some details)), w)
      | Inr events \<Rightarrow>
          (if length events = 0
           then (let (t, w1) = Date_now w in
                 (Inr \<lparr>status = 200, success = True,
                       data = Some \<lparr>created = [], totalRequested = None, totalCreated = None,
                                    errors = None\<rparr>,
                       error = None, timestamp = toISOString rt t\<rparr>, w1))
           else if \<not> has_scope (user req) ''calendar.write''
           then (Inl (AppError ''Insufficient permissions for calendar operations'' 403
                        ''INSUFFICIENT_SCOPE'' None), w)
           else (let ((createdEvents, errs), w1) = createEvents_loop rt calendar events [] [] w;
                     resp = \<lparr>created = createdEvents,
                             totalRequested = Some (length events),
                             totalCreated = Some (length createdEvents),
                             errors = (if length errs > 0 then Some errs else None)\<rparr>;
                     st = (if length errs > 0 \<and> length createdEvents = 0 then 207 else 200);
                     (t, w2) = Date_now w1 in
                 (Inr \<lparr>status = st, success = True, data = Some resp, error = None,
                       timestamp = toISOString rt t\<rparr>, w2))))"

text \<open>The route \<open>POST /api/create-events\<close>: the handler, then the error handler.\<close>

definition post_create_events ::
  "runtime \<Rightarrow> ('b \<Rightarrow> string list + event_data list) \<Rightarrow> 'p calendar_client option
     \<Rightarrow> 'b request \<Rightarrow> 'p calendar_world \<Rightarrow> create_events_data response \<times> 'p calendar_world" where
  "post_create_events rt validateCreateEventsRequest calendar req w =
     calendar_respond rt (createEvents rt validateCreateEventsRequest calendar req w)"

subsection \<open>controllers/calendarController.ts: one event\<close>

definition getEvent ::
  "runtime \<Rightarrow> 'p calendar_client option \<Rightarrow> 'b request \<Rightarrow> 'p calendar_world
     \<Rightarrow> (thrown + CalendarEvent response) \<times> 'p calendar_world" where
  "getEvent rt calendar req w =
     (if \<not> truthy (eventId req)
      then (Inl (AppError ''Event ID is required'' 400 ''MISSING_EVENT_ID'' None), w)
      else if \<not> has_scope (user req) ''calendar.read''
      then (Inl (AppError ''Insufficient permissions for calendar read operations'' 403
                   ''INSUFFICIENT_SCOPE'' None), w)
      else (case calendarService_getEvent rt calendar (the (eventId req)) w of
              (None, w1) \<Rightarrow> (Inl (AppError ''Event not found'' 404 ''EVENT_NOT_FOUND'' None), w1)
            | (Some event, w1) \<Rightarrow>
                (let (t, w2) = Date_now w1 in
                 (Inr \<lparr>status = 200, success = True, data = Some event, error = None,
                       timestamp = toISOString rt t\<rparr>, w2))))"

definition deleteEvent ::
  "runtime \<Rightarrow> 'p calendar_client option \<Rightarrow> 'b request \<Rightarrow> 'p calendar_world
     \<Rightarrow> (thrown + (bool \<times> string) response) \<times> 'p calendar_world" where
  "deleteEvent rt calendar req w =
     (if \<not> truthy (eventId req)
      then (Inl (AppError ''Event ID is required'' 400 ''MISSING_EVENT_ID'' None), w)
      else if \<not> has_scope (user req) ''calendar.write''
      then (Inl (AppError ''Insufficient permissions for calendar write operations'' 403
                   ''INSUFFICIENT_SCOPE'' None), w)
      else (case calendarService_deleteEvent calendar (the (eventId req)) w of
              (Inl err, w1) \<Rightarrow> (Inl err, w1)
            | (Inr deleted, w1) \<Rightarrow>
                (if \<not> deleted
                 then (Inl (AppError ''Event not found or deletion failed'' 404
                              ''EVENT_DELETE_FAILED'' None), w1)
                 else (let (t, w2) = Date_now w1 in
                       (Inr \<lparr>status = 200, success = True,
                             data = Some (True, the (eventId req)), error = None,
                             timestamp = toISOString rt t\<rparr>, w2)))))"

text \<open>The routes \<open>GET\<close> and \<open>DELETE /api/events/:eventId\<close>.\<close>

definition get_event_route ::
  "runtime \<Rightarrow> 'p calendar_client option \<Rightarrow> 'b request \<Rightarrow> 'p calendar_world
     \<Rightarrow> CalendarEvent response \<times> 'p calendar_world" where
  "get_event_route rt calendar req w = calendar_respond rt (getEvent rt calendar req w)"

definition delete_event_route ::
  "runtime \<Rightarrow> 'p calendar_client option \<Rightarrow> 'b request \<Rightarrow> 'p calendar_world
     \<Rightarrow> (bool \<times> string) response \<times> 'p calendar_world" where
  "delete_event_route rt calendar req w = calendar_respond rt (deleteEvent rt calendar req w)"

text \<open>The scopes a request holds: none without a user or without a scope list.\<close>

definition granted_scopes :: "user_info option \<Rightarrow> string set" where
  "granted_scopes u =
     (case u of None \<Rightarrow> {} | Some i \<Rightarrow> (case scopes i of None \<Rightarrow> {} | Some ss \<Rightarrow> set ss))"

text \<open>The number of entries of the response's \<open>errors\<close> list, which is left out when empty.\<close>

definition error_count :: "create_events_data \<Rightarrow> nat" where
  "error_count d = (case errors d of None \<Rightarrow> 0 | Some es \<Rightarrow> length es)"

section \<open>Agent A: the email service\<close>

subsection \<open>middleware/validation.middleware.ts\<close>

text \<open>
  The body of \<open>POST /api/process-emails\<close> is the JSON object parsed by \<open>express.json()\<close>:
  its \<open>maxResults\<close> field and the names of its other keys. A field is absent, a number, a
  string, or a value of another JSON type.
\<close>

datatype json_field = JAbsent | JNumber rat | JString string | JOther

record process_emails_body =
  maxResults :: json_field
  other_keys :: "string list"

text \<open>
  \<open>Joi.number().integer().min(1).max(50).default(5)\<close> on one field. Joi converts a string
  that spells a number before it applies the rules; the conversion is a parameter. A number
  outside the safe integers is refused before the rules are tried.
\<close>

definition joi_maxResults :: "(string \<Rightarrow> rat option) \<Rightarrow> json_field \<Rightarrow> string + int" where
  "joi_maxResults coerce v =
     (case (case v of JAbsent \<Rightarrow> Inr None
                   | JNumber r \<Rightarrow> Inr (Some r)
                   | JString t \<Rightarrow> (case coerce t of None \<Rightarrow> Inl ''number.base'' | Some r \<Rightarrow> Inr (Some r))
                   | JOther \<Rightarrow> Inl ''number.base'') of
        Inl e \<Rightarrow> Inl e
      | Inr None \<Rightarrow> Inr 5
      | Inr (Some r) \<Rightarrow>
          (if r > 9007199254740991 \<or> r < - 9007199254740991 then Inl ''number.unsafe''
           else if r \<noteq> of_int \<lfloor>r\<rfloor> then Inl ''number.integer''
           else if r < 1 then Inl ''number.min''
           else if r > 50 then Inl ''number.max''
           else Inr \<lfloor>r\<rfloor>))"

text \<open>\<open>validateProcessEmailsRequest\<close>: the object schema has the one key \<open>maxResults\<close>.\<close>

definition validateProcessEmailsRequest ::
  "(string \<Rightarrow> rat option) \<Rightarrow> process_emails_body \<Rightarrow> string list + int" where
  "validateProcessEmailsRequest coerce input =
     (case joi_maxResults coerce (maxResults input) of
        Inl e \<Rightarrow> Inl [e]
      | Inr n \<Rightarrow> (if other_keys input \<noteq> [] then Inl [''object.unknown''] else Inr n))"

subsection \<open>services/aiService.ts: action items\<close>

record EmailData =
  m_id :: string
  m_subject :: string
  m_from :: string
  m_body :: string
  m_threadId :: string
  m_receivedAt :: int
  m_isRead :: bool
  m_labels :: "string list"

record ActionItem =
  a_id :: string
  a_title :: string
  a_description :: "string option"
  a_suggestedDate :: "string option"
  a_priority :: string
  a_type :: string
  a_attendees :: "string list option"

text \<open>
  A field of an object the model returned (\<open>any\<close>): missing, a string, or a value that is not
  a string, of which its truthiness and its conversion by \<open>String\<close> are kept.
\<close>

datatype js_any = Undefined | Str string | Other bool string

fun truthy_any :: "js_any \<Rightarrow> bool" where
  "truthy_any Undefined = False"
| "truthy_any (Str s) = (s \<noteq> [])"
| "truthy_any (Other b s) = b"

fun String_any :: "js_any \<Rightarrow> string" where
  "String_any Undefined = ''undefined''"
| "String_any (Str s) = s"
| "String_any (Other b s) = s"

record raw_action =
  raw_title :: js_any
  raw_description :: js_any
  raw_suggestedDate :: js_any
  raw_priority :: js_any
  raw_type :: js_any
  raw_attendees :: "js_any list option"

text \<open>An element of the parsed array: an object, or anything else.\<close>

datatype js_elem = Obj raw_action | NotObj

text \<open>
  What the chat completion gives \<open>extractActionItems\<close>: no content, content that
  \<open>JSON.parse\<close> rejects, a parsed value that is not an array, or a parsed array.
\<close>

datatype completion = NoContent | Unparseable | NotArray | Array "js_elem list"

text \<open>
  Strings are lists of bytes here. \<open>trim\<close> strips the ASCII white space and \<open>toLowerCase\<close>
  lowers the letters A to Z; the white space and the letters outside ASCII, which the
  JavaScript functions also handle, are left as they are.
\<close>

definition is_space :: "char \<Rightarrow> bool" where
  "is_space c = (c \<in> set [CHR '' '', CHR 0x09, CHR 0x0A, CHR 0x0B, CHR 0x0C, CHR 0x0D])"

definition trim :: "string \<Rightarrow> string" where
  "trim s = rev (dropWhile is_space (rev (dropWhile is_space s)))"

definition toLowerCase :: "string \<Rightarrow> string" where
  "toLowerCase s =
     map (\<lambda>c. let n = (of_char c :: nat) in if 65 \<le> n \<and> n \<le> 90 then char_of (n + 32) else c) s"

definition validateDate ::
  "runtime \<Rightarrow> js_any \<Rightarrow> ('x, 'c) world \<Rightarrow> string option \<times> ('x, 'c) world" where
  "validateDate rt date w =
     (case date of
        Str d \<Rightarrow>
          (if d = [] then (None, w)
           else (case Date_parse rt d of
                   None \<Rightarrow> (None, w)
                 | Some parsed \<Rightarrow>
                     (let (now, w1) = Date_now w in
                      if parsed < now then (None, w1) else (Some (toISOString rt parsed), w1))))
      | _ \<Rightarrow> (None, w))"

definition validatePriority :: "js_any \<Rightarrow> string" where
  "validatePriority priority =
     (case priority of
        Str p \<Rightarrow> (if p \<in> set [''low'', ''medium'', ''high''] then p else ''medium'')
      | _ \<Rightarrow> ''medium'')"

definition validateType :: "js_any \<Rightarrow> string" where
  "validateType ty =
     (case ty of
        Str t \<Rightarrow> (if t \<in> set [''meeting'', ''deadline'', ''followup'', ''reminder''] then t
                  else ''reminder'')
      | _ \<Rightarrow> ''reminder'')"

text \<open>The \<open>map\<close> of \<open>validateAndEnhanceActions\<close>, with the index of each element.\<close>

fun enhance_actions ::
  "runtime \<Rightarrow> EmailData \<Rightarrow> nat \<Rightarrow> raw_action list \<Rightarrow> ('x, 'c) world
     \<Rightarrow> ActionItem list \<times> ('x, 'c) world" where
  "enhance_actions rt email index [] w = ([], w)"
| "enhance_actions rt email index (action # rest) w =
     (let (date, w1) = validateDate rt (raw_suggestedDate action) w;
          item = \<lparr>a_id = m_id email @ ''_action_'' @ digits index,
                  a_title = trim (String_any (raw_title action)),
                  a_description =
                    (if truthy_any (raw_description action)
                     then Some (trim (String_any (raw_description action))) else None),
                  a_suggestedDate = date,
                  a_priority = validatePriority (raw_priority action),
                  a_type = validateType (raw_type action),
                  a_attendees =
                    map_option
                      (\<lambda>as. map String_any
                              (filter (\<lambda>e. (case e of Str a \<Rightarrow> str_includes a ''@'' | _ \<Rightarrow> False)) as))
                      (raw_attendees action)\<rparr>;
          (items, w2) = enhance_actions rt email (Suc index) rest w1 in
      (item # items, w2))"

fun objects_with_title :: "js_elem list \<Rightarrow> raw_action list" where
  "objects_with_title [] = []"
| "objects_with_title (Obj a # es) =
     (if truthy_any (raw_title a) then a # objects_with_title es else objects_with_title es)"
| "objects_with_title (NotObj # es) = objects_with_title es"

definition validateAndEnhanceActions ::
  "runtime \<Rightarrow> completion \<Rightarrow> EmailData \<Rightarrow> ('x, 'c) world \<Rightarrow> ActionItem list \<times> ('x, 'c) world" where
  "validateAndEnhanceActions rt actions email w =
     (case actions of
        Array elems \<Rightarrow>
          (let (items, w1) = enhance_actions rt email 0 (objects_with_title elems) w in
           (filter (\<lambda>action. length (a_title action) > 0) items, w1))
      | _ \<Rightarrow> ([], w))"

text \<open>
  \<open>extractActionsWithRegex\<close>: the matches of each of the five patterns on the lower-cased
  subject and body (\<open>text.match(pattern)\<close> is a parameter of the runtime), at most three.
\<close>

fun regex_actions :: "string \<Rightarrow> nat \<Rightarrow> nat \<Rightarrow> string list \<Rightarrow> ActionItem list" where
  "regex_actions eid index matchIndex [] = []"
| "regex_actions eid index matchIndex (m # ms) =
     \<lparr>a_id = eid @ ''_regex_'' @ digits index @ ''_'' @ digits matchIndex,
      a_title = trim m, a_description = None, a_suggestedDate = None,
      a_priority = ''medium'', a_type = ''reminder'', a_attendees = None\<rparr>
     # regex_actions eid index (Suc matchIndex) ms"

definition extractActionsWithRegex :: "runtime \<Rightarrow> EmailData \<Rightarrow> ActionItem list" where
  "extractActionsWithRegex rt email =
     (let text = toLowerCase (m_subject email @ '' '' @ m_body email) in
      take 3 (concat (map (\<lambda>index. case regex_match rt index text of
                                       None \<Rightarrow> []
                                     | Some matches \<Rightarrow> regex_actions (m_id email) index 0 matches)
                          [0 ..< 5])))"

subsection \<open>The collaborators of the email controller\<close>

text \<open>
  The mail gateway, the summarization engine, the credential provider and Agent B are
  reached over the network. Each call takes the state of the outside world and returns what
  the call returns or throws, with the new state. \<open>chat_completion\<close> is the completion
  request inside \<open>extractActionItems\<close>; \<open>requestDelegatedToken\<close> returns the token or nothing.
\<close>

record 's collaborators =
  getRecentEmails :: "'s \<Rightarrow> int \<Rightarrow> (thrown + string list) \<times> 's"
  getEmailContent :: "'s \<Rightarrow> string \<Rightarrow> (thrown + EmailData) \<times> 's"
  summarizeEmail :: "'s \<Rightarrow> EmailData \<Rightarrow> (thrown + string) \<times> 's"
  chat_completion :: "'s \<Rightarrow> EmailData \<Rightarrow> (thrown + completion) \<times> 's"
  requestDelegatedToken :: "'s \<Rightarrow> string \<Rightarrow> string \<Rightarrow> string list \<Rightarrow> (thrown + string option) \<times> 's"
  callAgentBCreateEvents :: "'s \<Rightarrow> string \<Rightarrow> event_data list \<Rightarrow> (thrown + CalendarEvent list) \<times> 's"

datatype downstream_call =
  GetRecentEmails int
| GetEmailContent string
| SummarizeEmail string
| ChatCompletion string
| RequestDelegatedToken string string "string list"
| CallAgentBCreateEvents string "event_data list"

type_synonym 's inbox_world = "('s, downstream_call) world"

fun is_create_events_call :: "downstream_call \<Rightarrow> bool" where
  "is_create_events_call (CallAgentBCreateEvents t es) = True"
| "is_create_events_call _ = False"

definition extractActionItems ::
  "runtime \<Rightarrow> 's collaborators \<Rightarrow> EmailData \<Rightarrow> 's inbox_world
     \<Rightarrow> (thrown + ActionItem list) \<times> 's inbox_world" where
  "extractActionItems rt co email w0 =
     (let w = log_call (ChatCompletion (m_id email)) w0 in
      case chat_completion co (ext w) email of
        (Inl err, s) \<Rightarrow>
          (if instanceof_Error err \<and> str_includes (error_message err) ''rate_limit''
           then (Inl (AppError ''OpenAI rate limit exceeded'' 429 ''RATE_LIMIT_EXCEEDED'' None),
                 w\<lparr>ext := s\<rparr>)
           else (Inl (AppError ''Failed to extract action items'' 500 ''AI_EXTRACTION_FAILED'' None),
                 w\<lparr>ext := s\<rparr>))
      | (Inr NoContent, s) \<Rightarrow> (Inr [], w\<lparr>ext := s\<rparr>)
      | (Inr Unparseable, s) \<Rightarrow> (Inr (extractActionsWithRegex rt email), w\<lparr>ext := s\<rparr>)
      | (Inr actions, s) \<Rightarrow>
          (let (valid, w1) = validateAndEnhanceActions rt actions email (w\<lparr>ext := s\<rparr>) in
           (Inr valid, w1)))"


subsection \<open>controllers/emailController.ts: process-emails\<close>

record inbox_item =
  i_email :: EmailData
  i_summary :: string
  i_actions :: "ActionItem list"

record EmailSummary =
  s_id :: string
  s_summary :: string
  s_actionItems :: "ActionItem list"
  s_priority :: string
  s_sentiment :: string

record ProcessEmailsResponse =
  processed :: nat
  summaries :: "EmailSummary list"
  eventsCreated :: "CalendarEvent list"
  inbox_errors :: "(string \<times> string) list"

text \<open>\<open>s.replace(pat, rep)\<close> with a string pattern: the first occurrence only.\<close>

fun replace_first :: "string \<Rightarrow> string \<Rightarrow> string \<Rightarrow> string" where
  "replace_first [] pat rep = (if pat = [] then rep else [])"
| "replace_first (x # xs) pat rep =
     (if startsWith (x # xs) pat then rep @ drop (length pat) (x # xs)
      else x # replace_first xs pat rep)"

text \<open>
  \<open>new Date(t).toISOString()\<close> for a time value that may be \<open>NaN\<close> (\<open>None\<close>) or outside
  the range of \<open>Date\<close>: it throws a \<open>RangeError\<close> there.
\<close>

definition Date_toISOString :: "runtime \<Rightarrow> int option \<Rightarrow> thrown + string" where
  "Date_toISOString rt t =
     (case t of
        None \<Rightarrow> Inl (JsError ''RangeError'' ''Invalid time value'')
      | Some v \<Rightarrow>
          (if \<bar>v\<bar> \<le> 8640000000000000 then Inr (toISOString rt v)
           else Inl (JsError ''RangeError'' ''Invalid time value'')))"

text \<open>The body of the \<open>try\<close> block of step 2, for one message.\<close>

definition process_message ::
  "runtime \<Rightarrow> 's collaborators \<Rightarrow> string \<Rightarrow> 's inbox_world
     \<Rightarrow> (thrown + inbox_item) \<times> 's inbox_world" where
  "process_message rt co mid w =
     (let w0 = log_call (GetEmailContent mid) w in
      case getEmailContent co (ext w0) mid of
        (Inl err, s) \<Rightarrow> (Inl err, w0\<lparr>ext := s\<rparr>)
      | (Inr email, s) \<Rightarrow>
          (let w1 = log_call (SummarizeEmail (m_id email)) (w0\<lparr>ext := s\<rparr>) in
           case summarizeEmail co (ext w1) email of
             (Inl err, s1) \<Rightarrow> (Inl err, w1\<lparr>ext := s1\<rparr>)
           | (Inr summary, s1) \<Rightarrow>
               (case extractActionItems rt co email (w1\<lparr>ext := s1\<rparr>) of
                  (Inl err, w2) \<Rightarrow> (Inl err, w2)
                | (Inr actions, w2) \<Rightarrow>
                    (Inr \<lparr>i_email = email, i_summary = summary, i_actions = actions\<rparr>, w2))))"

text \<open>Step 2: the \<open>for\<close> loop over the messages; a failure is recorded and the loop goes on.\<close>

fun process_messages ::
  "runtime \<Rightarrow> 's collaborators \<Rightarrow> string list \<Rightarrow> inbox_item list \<Rightarrow> (string \<times> string) list
     \<Rightarrow> 's inbox_world \<Rightarrow> (inbox_item list \<times> (string \<times> string) list) \<times> 's inbox_world" where
  "process_messages rt co [] items errs w = ((items, errs), w)"
| "process_messages rt co (mid # rest) items errs w =
     (case process_message rt co mid w of
        (Inr item, w1) \<Rightarrow> process_messages rt co rest (items @ [item]) errs w1
      | (Inl err, w1) \<Rightarrow>
          process_messages rt co rest items
            (errs @ [(mid, if instanceof_Error err then error_message err else ''Unknown error'')])
            w1)"

text \<open>
  Step 4, for one action item: the object literal is evaluated field by field, so the
  clock is read once for \<open>startTime\<close> and once more for \<open>endTime\<close> when the action has no
  suggested date.
\<close>

definition action_event ::
  "runtime \<Rightarrow> inbox_item \<Rightarrow> ActionItem \<Rightarrow> ('x, 'c) world
     \<Rightarrow> (thrown + event_data) \<times> ('x, 'c) world" where
  "action_event rt item action w =
     (let description = i_summary item @ [CHR 0x0A, CHR 0x0A] @ ''Original Email: ''
                          @ m_subject (i_email item);
          attendees = (case a_attendees action of None \<Rightarrow> [] | Some as \<Rightarrow> map Some as) in
      if truthy (a_suggestedDate action)
      then (case Date_toISOString rt
                   (map_option (\<lambda>t. t + 60 * 60 * 1000)
                      (Date_parse rt (the (a_suggestedDate action)))) of
              Inl err \<Rightarrow> (Inl err, w)
            | Inr endTime \<Rightarrow>
                (Inr \<lparr>d_title = Some (a_title action), d_description = Some description,
                      d_startTime = a_suggestedDate action, d_endTime = Some endTime,
                      d_attendees = Some attendees, d_location = None, d_reminders = None\<rparr>, w))
      else (let (t1, w1) = Date_now w;
                startTime = toISOString rt (t1 + 24 * 60 * 60 * 1000);
                (t2, w2) = Date_now w1;
                endTime = toISOString rt (t2 + 25 * 60 * 60 * 1000) in
            (Inr \<lparr>d_title = Some (a_title action), d_description = Some description,
                  d_startTime = Some startTime, d_endTime = Some endTime,
                  d_attendees = Some attendees, d_location = None, d_reminders = None\<rparr>, w2)))"

fun actions_events ::
  "runtime \<Rightarrow> inbox_item \<Rightarrow> ActionItem list \<Rightarrow> ('x, 'c) world
     \<Rightarrow> (thrown + event_data list) \<times> ('x, 'c) world" where
  "actions_events rt item [] w = (Inr [], w)"
| "actions_events rt item (action # rest) w =
     (case action_event rt item action w of
        (Inl err, w1) \<Rightarrow> (Inl err, w1)
      | (Inr ev, w1) \<Rightarrow>
          (case actions_events rt item rest w1 of
             (Inl err, w2) \<Rightarrow> (Inl err, w2)
           | (Inr evs, w2) \<Rightarrow> (Inr (ev # evs), w2)))"

text \<open>\<open>items.flatMap(item => item.actions.map(...))\<close>.\<close>

fun eventsToCreate ::
  "runtime \<Rightarrow> inbox_item list \<Rightarrow> ('x, 'c) world \<Rightarrow> (thrown + event_data list) \<times> ('x, 'c) world" where
  "eventsToCreate rt [] w = (Inr [], w)"
| "eventsToCreate rt (item # rest) w =
     (case actions_events rt item (i_actions item) w of
        (Inl err, w1) \<Rightarrow> (Inl err, w1)
      | (Inr evs, w1) \<Rightarrow>
          (case eventsToCreate rt rest w1 of
             (Inl err, w2) \<Rightarrow> (Inl err, w2)
           | (Inr evs', w2) \<Rightarrow> (Inr (evs @ evs'), w2)))"

text \<open>
  \<open>processInbox\<close> up to the end of step 2: validation, the bearer token, the list of recent
  messages and the loop over them. It hands the session token, the processed items and the
  errors to step 3.
\<close>

definition processInbox_steps_1_2 ::
  "runtime \<Rightarrow> 's collaborators \<Rightarrow> process_emails_body request \<Rightarrow> 's inbox_world
     \<Rightarrow> (thrown + string \<times> inbox_item list \<times> (string \<times> string) list) \<times> 's inbox_world" where
  "processInbox_steps_1_2 rt co req w =
     (case validateProcessEmailsRequest (number_of_string rt) (body req) of
        Inl details \<Rightarrow>
          (Inl (AppError ''Invalid request parameters'' 400 ''VALIDATION_ERROR'' (Some details)), w)
      | Inr maxRes \<Rightarrow>
          (let userSessionJwt = map_option (\<lambda>h. replace_first h ''Bearer '' []) (authorization req) in
           if \<not> truthy userSessionJwt
           then (Inl (AppError ''Authorization header required'' 401 ''MISSING_TOKEN'' None), w)
           else (let w0 = log_call (GetRecentEmails maxRes) w in
                 case getRecentEmails co (ext w0) maxRes of
                   (Inl err, s) \<Rightarrow> (Inl err, w0\<lparr>ext := s\<rparr>)
                 | (Inr messages, s) \<Rightarrow>
                     (let ((items, errs), w1) =
                            process_messages rt co messages [] [] (w0\<lparr>ext := s\<rparr>) in
                      (Inr (the userSessionJwt, items, errs), w1)))))"

text \<open>Steps 3 to 5: the delegated token, the drafts, the call to Agent B and the response.\<close>

definition processInbox_steps_3_5 ::
  "runtime \<Rightarrow> 's collaborators \<Rightarrow> string \<Rightarrow> inbox_item list \<Rightarrow> (string \<times> string) list
     \<Rightarrow> 's inbox_world \<Rightarrow> (thrown + ProcessEmailsResponse response) \<times> 's inbox_world" where
  "processInbox_steps_3_5 rt co userSessionJwt items errs w =
     (let w0 = log_call (RequestDelegatedToken userSessionJwt ''agent-b-calendar''
                           [''calendar.write'']) w in
      case requestDelegatedToken co (ext w0) userSessionJwt ''agent-b-calendar''
             [''calendar.write''] of
        (Inl err, s) \<Rightarrow> (Inl err, w0\<lparr>ext := s\<rparr>)
      | (Inr delegatedToken, s) \<Rightarrow>
          (if \<not> truthy delegatedToken
           then (Inl (AppError ''Failed to obtain delegated token for calendar operations'' 403
                        ''DELEGATION_FAILED'' None), w0\<lparr>ext := s\<rparr>)
           else (case eventsToCreate rt items (w0\<lparr>ext := s\<rparr>) of
                   (Inl err, w1) \<Rightarrow> (Inl err, w1)
                 | (Inr events, w1) \<Rightarrow>
                     (let (createdEvents, errs1, w2) =
                            (if length events > 0
                             then (let w1' = log_call (CallAgentBCreateEvents (the delegatedToken)
                                                         events) w1 in
                                   case callAgentBCreateEvents co (ext w1') (the delegatedToken)
                                          events of
                                     (Inr cr, s1) \<Rightarrow> (cr, errs, w1'\<lparr>ext := s1\<rparr>)
                                   | (Inl err, s1) \<Rightarrow>
                                       ([], errs @ [(''calendar-creation'',
                                                     if instanceof_Error err then error_message err
                                                     else ''Calendar creation failed'')],
                                        w1'\<lparr>ext := s1\<rparr>))
                             else ([], errs, w1));
                          (t, w3) = Date_now w2 in
                      (Inr \<lparr>status = 200, success = True,
                            data = Some \<lparr>processed = length items,
                                         summaries =
                                           map (\<lambda>item. \<lparr>s_id = m_id (i_email item),
                                                         s_summary = i_summary item,
                                                         s_actionItems = i_actions item,
                                                         s_priority = ''medium'',
                                                         s_sentiment = ''neutral''\<rparr>) items,
                                         eventsCreated = createdEvents,
                                         inbox_errors = errs1\<rparr>,
                            error = None, timestamp = toISOString rt t\<rparr>, w3)))))"

definition processInbox ::
  "runtime \<Rightarrow> 's collaborators \<Rightarrow> process_emails_body request \<Rightarrow> 's inbox_world
     \<Rightarrow> (thrown + ProcessEmailsResponse response) \<times> 's inbox_world" where
  "processInbox rt co req w =
     (case processInbox_steps_1_2 rt co req w of
        (Inl err, w1) \<Rightarrow> (Inl err, w1)
      | (Inr (userSessionJwt, items, errs), w1) \<Rightarrow>
          processInbox_steps_3_5 rt co userSessionJwt items errs w1)"

text \<open>The route \<open>POST /api/process-emails\<close>: the handler, then the error handler.\<close>

definition post_process_emails ::
  "runtime \<Rightarrow> 's collaborators \<Rightarrow> process_emails_body request \<Rightarrow> 's inbox_world
     \<Rightarrow> ProcessEmailsResponse response \<times> 's inbox_world" where
  "post_process_emails rt co req w = respond rt (processInbox rt co req w)"


text \<open>The number a \<open>maxResults\<close> field holds, if it holds one (a string is read by the conversion).\<close>

definition field_number :: "(string \<Rightarrow> rat option) \<Rightarrow> json_field \<Rightarrow> rat option" where
  "field_number coerce v = (case v of JNumber r \<Rightarrow> Some r | JString t \<Rightarrow> coerce t | _ \<Rightarrow> None)"

text \<open>The start and end times of the drafts sent to Agent B, in the order of the calls.\<close>

fun sent_times :: "downstream_call list \<Rightarrow> (string option \<times> string option) list" where
  "sent_times [] = []"
| "sent_times (CallAgentBCreateEvents t es # cs) =
     map (\<lambda>e. (d_startTime e, d_endTime e)) es @ sent_times cs"
| "sent_times (c # cs) = sent_times cs"

section \<open>Concrete requests, providers and worlds\<close>

text \<open>
  A runtime that prints a time as its number of milliseconds, a clock that advances by one
  millisecond per reading, and a provider that accepts the first insert and refuses the later
  ones. They are the inputs at which the theorems below are instantiated.
\<close>

definition demo_runtime :: runtime where
  "demo_runtime = \<lparr>toISOString = String_of_int, Date_parse = (\<lambda>s. None),
                    regex_match = (\<lambda>i s. None), number_of_string = (\<lambda>s. None)\<rparr>"

text \<open>The same runtime with a conversion that reads the string \<open>7\<close> as the number 7.\<close>

definition coercing_runtime :: runtime where
  "coercing_runtime =
     demo_runtime\<lparr>number_of_string := (\<lambda>s. if s = ''7'' then Some 7 else None)\<rparr>"

definition demo_world :: "nat calendar_world" where
  "demo_world = \<lparr>clock = (\<lambda>n. 1000 + int n), reads = 0, random = (\<lambda>n. ''r''), draws = 0,
                  ext = 0, calls = []\<rparr>"

definition demo_google_event :: google_event where
  "demo_google_event = \<lparr>g_id = Some ''ev1'', g_summary = Some ''Standup'', g_description = None,
     g_start_dateTime = Some ''2030-01-01T09:00:00.000Z'', g_start_date = None,
     g_end_dateTime = Some ''2030-01-01T10:00:00.000Z'', g_end_date = None,
     g_attendees = None, g_location = None, g_htmlLink = None, g_status = None\<rparr>"

definition flaky_client :: "nat calendar_client" where
  "flaky_client = \<lparr>
     events_insert = (\<lambda>p r. (if p = 0 then Inr demo_google_event
                                else Inl (JsError ''Error'' ''invalid_grant''), Suc p)),
     events_get = (\<lambda>p i. (Inl (JsError ''Error'' ''Not Found''), p)),
     events_delete = (\<lambda>p i. (if i = ''gone'' then Inl (JsError ''Error'' ''Event Not Found'')
                                else Inl (JsError ''Error'' ''Backend Error''), p))\<rparr>"

definition demo_draft :: event_data where
  "demo_draft = \<lparr>d_title = Some ''Standup'', d_description = None,
     d_startTime = Some ''2030-01-01T09:00:00.000Z'', d_endTime = Some ''2030-01-01T10:00:00.000Z'',
     d_attendees = None, d_location = None, d_reminders = None\<rparr>"

definition demo_request :: "string list \<Rightarrow> event_data list \<Rightarrow> event_data list request" where
  "demo_request ss evs = \<lparr>body = evs, eventId = Some ''ev1'', authorization = Some ''Bearer t'',
     user = Some \<lparr>userId = Some ''u1'', scopes = Some ss\<rparr>\<rparr>"

text \<open>
  For Agent A: one unread message, a completion that returns the given array, a credential
  provider that returns the given token, and a request with the given \<open>maxResults\<close> field.
\<close>

definition demo_email :: EmailData where
  "demo_email = \<lparr>m_id = ''m1'', m_subject = ''Report'', m_from = ''boss@example.com'',
     m_body = ''Please send the report.'', m_threadId = ''t1'', m_receivedAt = 0,
     m_isRead = False, m_labels = []\<rparr>"

definition undated_action :: raw_action where
  "undated_action = \<lparr>raw_title = Str ''Send report'', raw_description = Undefined,
     raw_suggestedDate = Undefined, raw_priority = Str ''high'', raw_type = Str ''deadline'',
     raw_attendees = None\<rparr>"

definition demo_item :: inbox_item where
  "demo_item = \<lparr>i_email = demo_email, i_summary = ''A summary'',
     i_actions = [\<lparr>a_id = ''m1_action_0'', a_title = ''Send report'', a_description = None,
                   a_suggestedDate = None, a_priority = ''high'', a_type = ''deadline'',
                   a_attendees = None\<rparr>]\<rparr>"

definition demo_collaborators :: "js_elem list \<Rightarrow> string option \<Rightarrow> unit collaborators" where
  "demo_collaborators actions token = \<lparr>
     getRecentEmails = (\<lambda>s n. (Inr [''m1''], s)),
     getEmailContent = (\<lambda>s i. (Inr demo_email, s)),
     summarizeEmail = (\<lambda>s e. (Inr ''A summary'', s)),
     chat_completion = (\<lambda>s e. (Inr (Array actions), s)),
     requestDelegatedToken = (\<lambda>s j a sc. (Inr token, s)),
     callAgentBCreateEvents = (\<lambda>s t es. (Inr [], s))\<rparr>"

definition demo_inbox_world :: "unit inbox_world" where
  "demo_inbox_world = \<lparr>clock = (\<lambda>n. 1000 + int n), reads = 0, random = (\<lambda>n. ''r''), draws = 0,
                        ext = (), calls = []\<rparr>"

definition inbox_request :: "json_field \<Rightarrow> process_emails_body request" where
  "inbox_request v = \<lparr>body = \<lparr>maxResults = v, other_keys = []\<rparr>, eventId = None,
     authorization = Some ''Bearer t'', user = Some \<lparr>userId = Some ''u1'', scopes = Some []\<rparr>\<rparr>"

section \<open>Agent B: properties of the calendar routes\<close>

lemma has_scope_granted: "has_scope u s = (s \<in> granted_scopes u)"
  by (simp add: has_scope_def granted_scopes_def split: option.splits)

lemma createEvents_empty:
  assumes "validate (body req) = Inr []"
  shows "createEvents rt validate calendar req w =
     (Inr \<lparr>status = 200, success = True,
           data = Some \<lparr>created = [], totalRequested = None, totalCreated = None, errors = None\<rparr>,
           error = None, timestamp = toISOString rt (clock w (reads w))\<rparr>,
      w\<lparr>reads := Suc (reads w)\<rparr>)"
  using assms by (simp add: createEvents_def Date_now_def)

text \<open>
  C6: a create-events call whose validated list of drafts is empty answers with status 200
  and \<open>created = []\<close>, and makes no call to the Calendar Gateway: the log of gateway calls and
  the provider's state are what they were.
\<close>

theorem create_events_empty_batch:
  assumes "validate (body req) = Inr []"
  shows "status (fst (post_create_events rt validate calendar req w)) = 200
       \<and> map_option created (data (fst (post_create_events rt validate calendar req w))) = Some []
       \<and> calls (snd (post_create_events rt validate calendar req w)) = calls w
       \<and> ext (snd (post_create_events rt validate calendar req w)) = ext w"
  using assms by (simp add: post_create_events_def calendar_respond_def createEvents_empty)

theorem create_events_empty_batch_witness:
  "(Inr (body (demo_request [] [])) :: string list + event_data list) = Inr []
   \<and> status (fst (post_create_events demo_runtime Inr (Some flaky_client) (demo_request [] []) demo_world)) = 200
   \<and> map_option created (data (fst (post_create_events demo_runtime Inr (Some flaky_client)
         (demo_request [] []) demo_world))) = Some []
   \<and> calls (snd (post_create_events demo_runtime Inr (Some flaky_client) (demo_request [] []) demo_world))
       = calls demo_world
   \<and> ext (snd (post_create_events demo_runtime Inr (Some flaky_client) (demo_request [] []) demo_world))
       = ext demo_world"
proof -
  have h: "(Inr (body (demo_request [] [])) :: string list + event_data list) = Inr []"
    by (simp add: demo_request_def)
  from create_events_empty_batch
    [of Inr "demo_request [] []" demo_runtime "Some flaky_client" demo_world, OF h] h
  show ?thesis by blast
qed

text \<open>
  C3: on an empty list of drafts the answer does not depend on the caller's scopes. Two requests
  with the same body, whatever their users and scopes, get the same response from the same
  world, with status 200 and \<open>created = []\<close>: the scope check is not reached.
\<close>

theorem create_events_empty_scope_independent:
  assumes "body r1 = body r2" and "validate (body r1) = Inr []"
  shows "post_create_events rt validate calendar r1 w = post_create_events rt validate calendar r2 w
       \<and> status (fst (post_create_events rt validate calendar r1 w)) = 200
       \<and> map_option created (data (fst (post_create_events rt validate calendar r1 w))) = Some []"
proof -
  from assms have "validate (body r2) = Inr []" by simp
  then show ?thesis
    using assms(2) by (simp add: post_create_events_def calendar_respond_def createEvents_empty)
qed

theorem create_events_empty_scope_independent_witness:
  "body (demo_request [''calendar.write''] []) = body (demo_request [''email.read''] [])
   \<and> (Inr (body (demo_request [''calendar.write''] [])) :: string list + event_data list) = Inr []
   \<and> post_create_events demo_runtime Inr None (demo_request [''calendar.write''] []) demo_world
       = post_create_events demo_runtime Inr None (demo_request [''email.read''] []) demo_world
   \<and> status (fst (post_create_events demo_runtime Inr None (demo_request [''calendar.write''] [])
         demo_world)) = 200
   \<and> map_option created (data (fst (post_create_events demo_runtime Inr None
         (demo_request [''calendar.write''] []) demo_world))) = Some []"
proof -
  have h1: "body (demo_request [''calendar.write''] []) = body (demo_request [''email.read''] [])"
    by (simp add: demo_request_def)
  have h2: "(Inr (body (demo_request [''calendar.write''] [])) :: string list + event_data list) = Inr []"
    by (simp add: demo_request_def)
  from create_events_empty_scope_independent [of "demo_request [''calendar.write''] []"
      "demo_request [''email.read''] []" Inr demo_runtime None demo_world, OF h1 h2] h1 h2
  show ?thesis by blast
qed

lemma createEvents_denied:
  assumes "validate (body req) = Inr events" and "events \<noteq> []"
    and "''calendar.write'' \<notin> granted_scopes (user req)"
  shows "createEvents rt validate calendar req w =
     (Inl (AppError ''Insufficient permissions for calendar operations'' 403
             ''INSUFFICIENT_SCOPE'' None), w)"
  using assms by (simp add: createEvents_def has_scope_granted)

text \<open>
  C2: a create-events request with a non-empty list of drafts whose granted scopes do not
  contain the exact string \<open>calendar.write\<close>, whatever else they contain, is answered with
  status 403 and code \<open>INSUFFICIENT_SCOPE\<close>, and no call reaches the Calendar Gateway.
\<close>

theorem create_events_insufficient_scope:
  assumes "validate (body req) = Inr events" and "events \<noteq> []"
    and "''calendar.write'' \<notin> granted_scopes (user req)"
  shows "status (fst (post_create_events rt validate calendar req w)) = 403
       \<and> map_option err_code (error (fst (post_create_events rt validate calendar req w)))
           = Some ''INSUFFICIENT_SCOPE''
       \<and> calls (snd (post_create_events rt validate calendar req w)) = calls w
       \<and> ext (snd (post_create_events rt validate calendar req w)) = ext w"
  using assms
  by (simp add: post_create_events_def calendar_respond_def calendar_errorHandler_def
      createEvents_denied [of validate req events] errorHandler_def Date_now_def)

theorem create_events_insufficient_scope_witness:
  "(Inr (body (demo_request [''calendar.read'', ''calendar.writer'', ''email.read''] [demo_draft]))
      :: string list + event_data list) = Inr [demo_draft]
   \<and> [demo_draft] \<noteq> []
   \<and> ''calendar.write'' \<notin> granted_scopes
         (user (demo_request [''calendar.read'', ''calendar.writer'', ''email.read''] [demo_draft]))
   \<and> status (fst (post_create_events demo_runtime Inr (Some flaky_client)
         (demo_request [''calendar.read'', ''calendar.writer'', ''email.read''] [demo_draft])
         demo_world)) = 403
   \<and> map_option err_code (error (fst (post_create_events demo_runtime Inr (Some flaky_client)
         (demo_request [''calendar.read'', ''calendar.writer'', ''email.read''] [demo_draft])
         demo_world))) = Some ''INSUFFICIENT_SCOPE''
   \<and> calls (snd (post_create_events demo_runtime Inr (Some flaky_client)
         (demo_request [''calendar.read'', ''calendar.writer'', ''email.read''] [demo_draft])
         demo_world)) = calls demo_world
   \<and> ext (snd (post_create_events demo_runtime Inr (Some flaky_client)
         (demo_request [''calendar.read'', ''calendar.writer'', ''email.read''] [demo_draft])
         demo_world)) = ext demo_world"
proof -
  have h1: "(Inr (body (demo_request [''calendar.read'', ''calendar.writer'', ''email.read''] [demo_draft]))
      :: string list + event_data list) = Inr [demo_draft]"
    by (simp add: demo_request_def)
  have h2: "[demo_draft] \<noteq> []" by simp
  have h3: "''calendar.write'' \<notin> granted_scopes
         (user (demo_request [''calendar.read'', ''calendar.writer'', ''email.read''] [demo_draft]))"
    by (simp add: demo_request_def granted_scopes_def)
  from create_events_insufficient_scope [of Inr
      "demo_request [''calendar.read'', ''calendar.writer'', ''email.read''] [demo_draft]"
      "[demo_draft]" demo_runtime "Some flaky_client" demo_world, OF h1 h2 h3] h1 h2 h3
  show ?thesis by blast
qed

lemma createEvent_logs:
  "calendarService_createEvent rt calendar ev w = (r, w') \<Longrightarrow> calls w' = calls w @ [CreateEvent ev]"
  by (auto simp: calendarService_createEvent_def createEvent_catch_def createMockEvent_def mapToCalendarEvent_def
      time_or_now_def log_call_def Date_now_def Math_random_def Let_def
      split: option.splits prod.splits sum.splits if_splits)

lemma enhance_calls: "enhanceEventData rt d w = (r, w') \<Longrightarrow> calls w' = calls w"
  by (auto simp: enhanceEventData_def Date_now_def Let_def)

text \<open>
  The loop invariant: every draft adds one created event or one error entry, and one call to
  the gateway.
\<close>

lemma loop_counts:
  "createEvents_loop rt calendar evs cr er w = ((cr', er'), w') \<Longrightarrow>
     length cr' + length er' = length cr + length er + length evs
     \<and> length (calls w') = length (calls w) + length evs"
proof (induction evs arbitrary: cr er w)
  case Nil
  then show ?case by simp
next
  case (Cons d ds)
  obtain r w1 where e: "enhanceEventData rt d w = (r, w1)" by (cases "enhanceEventData rt d w")
  obtain res w2 where c: "calendarService_createEvent rt calendar r w1 = (res, w2)"
    by (cases "calendarService_createEvent rt calendar r w1")
  have l: "length (calls w2) = Suc (length (calls w))"
    using enhance_calls [OF e] createEvent_logs [OF c] by simp
  show ?case
  proof (cases res)
    case (Inl err)
    with Cons.prems e c have
      "createEvents_loop rt calendar ds cr
         (er @ [(d, if instanceof_Error err then error_message err else ''Unknown error'')]) w2
         = ((cr', er'), w')" by simp
    from Cons.IH [OF this] l show ?thesis by simp
  next
    case (Inr ev)
    with Cons.prems e c have
      "createEvents_loop rt calendar ds (cr @ [ev]) er w2 = ((cr', er'), w')" by simp
    from Cons.IH [OF this] l show ?thesis by simp
  qed
qed

lemma createEvents_allowed:
  assumes "validate (body req) = Inr events" and "events \<noteq> []"
    and "''calendar.write'' \<in> granted_scopes (user req)"
    and "createEvents_loop rt calendar events [] [] w = ((cr, er), w1)"
  shows "createEvents rt validate calendar req w =
     (Inr \<lparr>status = (if length er > 0 \<and> length cr = 0 then 207 else 200), success = True,
           data = Some \<lparr>created = cr, totalRequested = Some (length events),
                        totalCreated = Some (length cr),
                        errors = (if length er > 0 then Some er else None)\<rparr>,
           error = None, timestamp = toISOString rt (clock w1 (reads w1))\<rparr>,
      w1\<lparr>reads := Suc (reads w1)\<rparr>)"
  using assms by (simp add: createEvents_def has_scope_granted Date_now_def)

text \<open>
  C9: on a non-empty batch that passes the scope check, \<open>totalRequested\<close> is the number of
  drafts, \<open>totalCreated\<close> the number of created events, and created events plus error entries
  are as many as the drafts. Every draft reaches the gateway: the log grows by one call per
  draft, whether earlier drafts failed or not.
\<close>

theorem create_events_accounting:
  assumes "validate (body req) = Inr events" and "events \<noteq> []"
    and "''calendar.write'' \<in> granted_scopes (user req)"
  shows "\<exists>d. data (fst (post_create_events rt validate calendar req w)) = Some d
           \<and> totalRequested d = Some (length events)
           \<and> totalCreated d = Some (length (created d))
           \<and> length (created d) + error_count d = length events
           \<and> length (calls (snd (post_create_events rt validate calendar req w)))
               = length (calls w) + length events"
proof -
  obtain cr er w1 where l: "createEvents_loop rt calendar events [] [] w = ((cr, er), w1)"
    by (metis surj_pair)
  from loop_counts [OF l] have n: "length cr + length er = length events"
    and c: "length (calls w1) = length (calls w) + length events" by simp_all
  have "createEvents rt validate calendar req w =
     (Inr \<lparr>status = (if length er > 0 \<and> length cr = 0 then 207 else 200), success = True,
           data = Some \<lparr>created = cr, totalRequested = Some (length events),
                        totalCreated = Some (length cr),
                        errors = (if length er > 0 then Some er else None)\<rparr>,
           error = None, timestamp = toISOString rt (clock w1 (reads w1))\<rparr>,
      w1\<lparr>reads := Suc (reads w1)\<rparr>)"
    using assms l by (rule createEvents_allowed)
  then show ?thesis
    using n c by (auto simp: post_create_events_def calendar_respond_def error_count_def)
qed

theorem create_events_accounting_witness:
  "(Inr (body (demo_request [''calendar.write''] [demo_draft, demo_draft]))
      :: string list + event_data list) = Inr [demo_draft, demo_draft]
   \<and> [demo_draft, demo_draft] \<noteq> []
   \<and> ''calendar.write'' \<in> granted_scopes (user (demo_request [''calendar.write''] [demo_draft, demo_draft]))
   \<and> (\<exists>d. data (fst (post_create_events demo_runtime Inr (Some flaky_client)
              (demo_request [''calendar.write''] [demo_draft, demo_draft]) demo_world)) = Some d
        \<and> totalRequested d = Some (length [demo_draft, demo_draft])
        \<and> totalCreated d = Some (length (created d))
        \<and> length (created d) + error_count d = length [demo_draft, demo_draft]
        \<and> length (calls (snd (post_create_events demo_runtime Inr (Some flaky_client)
              (demo_request [''calendar.write''] [demo_draft, demo_draft]) demo_world)))
            = length (calls demo_world) + length [demo_draft, demo_draft])"
proof -
  have h1: "(Inr (body (demo_request [''calendar.write''] [demo_draft, demo_draft]))
      :: string list + event_data list) = Inr [demo_draft, demo_draft]"
    by (simp add: demo_request_def)
  have h2: "[demo_draft, demo_draft] \<noteq> []" by simp
  have h3: "''calendar.write'' \<in> granted_scopes
      (user (demo_request [''calendar.write''] [demo_draft, demo_draft]))"
    by (simp add: demo_request_def granted_scopes_def)
  from create_events_accounting [of Inr "demo_request [''calendar.write''] [demo_draft, demo_draft]"
      "[demo_draft, demo_draft]" demo_runtime "Some flaky_client" demo_world, OF h1 h2 h3] h1 h2 h3
  show ?thesis by blast
qed

text \<open>
  The status of a non-empty batch that passes the scope check: 207 when no event was
  created, 200 as soon as one event was created, whatever the number of errors.
\<close>

lemma create_events_status_rule:
  assumes "validate (body req) = Inr events" and "events \<noteq> []"
    and "''calendar.write'' \<in> granted_scopes (user req)"
  shows "\<exists>d. data (fst (post_create_events rt validate calendar req w)) = Some d
           \<and> status (fst (post_create_events rt validate calendar req w))
               = (if created d = [] then 207 else 200)"
proof -
  obtain cr er w1 where l: "createEvents_loop rt calendar events [] [] w = ((cr, er), w1)"
    by (metis surj_pair)
  from loop_counts [OF l] assms(2) have n: "cr = [] \<longrightarrow> er \<noteq> []" by auto
  have "createEvents rt validate calendar req w =
     (Inr \<lparr>status = (if length er > 0 \<and> length cr = 0 then 207 else 200), success = True,
           data = Some \<lparr>created = cr, totalRequested = Some (length events),
                        totalCreated = Some (length cr),
                        errors = (if length er > 0 then Some er else None)\<rparr>,
           error = None, timestamp = toISOString rt (clock w1 (reads w1))\<rparr>,
      w1\<lparr>reads := Suc (reads w1)\<rparr>)"
    using assms l by (rule createEvents_allowed)
  then show ?thesis
    using n by (auto simp: post_create_events_def calendar_respond_def)
qed

text \<open>
  C1: the batch of two drafts below meets a provider that accepts the first insert and refuses
  the second with \<open>invalid_grant\<close>. One event is created and one error is recorded, so this
  is a partial success with an error list of length \<open>N - k = 1\<close>, for which the claim asks
  status 207; the status sent is 200.
\<close>

theorem create_events_partial_success_status:
  "(let r = fst (post_create_events demo_runtime Inr (Some flaky_client)
                  (demo_request [''calendar.write''] [demo_draft, demo_draft]) demo_world) in
    status r = 200 \<and> map_option (length \<circ> created) (data r) = Some 1
      \<and> map_option error_count (data r) = Some 1)"
  by (simp add: post_create_events_def calendar_respond_def createEvents_def demo_request_def
      has_scope_def enhanceEventData_def calendarService_createEvent_def createEvent_catch_def
      mapToCalendarEvent_def time_or_now_def truthy_def or_else_def demo_draft_def
      demo_world_def demo_runtime_def flaky_client_def demo_google_event_def
      Date_now_def log_call_def error_count_def Let_def)

lemma deleteEvent_service_throw:
  assumes "events_delete client (ext w) i = (Inl err, p)"
  shows "calendarService_deleteEvent (Some client) i w =
    (if instanceof_Error err \<and> str_includes (error_message err) ''Not Found''
     then (Inr False, (log_call (DeleteEvent i) w)\<lparr>ext := p\<rparr>)
     else (Inl (AppError ''Failed to delete calendar event'' 500 ''CALENDAR_DELETE_FAILED'' None),
           (log_call (DeleteEvent i) w)\<lparr>ext := p\<rparr>))"
  using assms by (simp add: calendarService_deleteEvent_def log_call_def Let_def)

text \<open>
  C7: with a calendar client configured, a delete whose provider call throws is not turned into
  a mock success. When the thrown value is an \<open>Error\<close> whose message contains \<open>Not Found\<close>
  the service returns \<open>false\<close> and the controller answers 404; every other thrown value
  becomes the 500 error with code \<open>CALENDAR_DELETE_FAILED\<close>, which the route reports.
\<close>

theorem delete_event_provider_error:
  assumes "eventId req = Some i" and "i \<noteq> []"
    and "''calendar.write'' \<in> granted_scopes (user req)"
    and "events_delete client (ext w) i = (Inl err, p)"
  shows "if instanceof_Error err \<and> str_includes (error_message err) ''Not Found''
         then fst (calendarService_deleteEvent (Some client) i w) = Inr False
            \<and> status (fst (delete_event_route rt (Some client) req w)) = 404
         else fst (calendarService_deleteEvent (Some client) i w)
                = Inl (AppError ''Failed to delete calendar event'' 500 ''CALENDAR_DELETE_FAILED'' None)
            \<and> status (fst (delete_event_route rt (Some client) req w)) = 500
            \<and> map_option err_code (error (fst (delete_event_route rt (Some client) req w)))
                = Some ''CALENDAR_DELETE_FAILED''"
  using assms
  by (simp add: delete_event_route_def deleteEvent_def calendar_respond_def
      calendar_errorHandler_def errorHandler_def Date_now_def
      truthy_def has_scope_granted deleteEvent_service_throw)

theorem delete_event_provider_error_witness:
  "eventId (demo_request [''calendar.write''] []) = Some ''ev1'' \<and> ''ev1'' \<noteq> []
   \<and> ''calendar.write'' \<in> granted_scopes (user (demo_request [''calendar.write''] []))
   \<and> events_delete flaky_client (ext demo_world) ''ev1''
       = (Inl (JsError ''Error'' ''Backend Error''), 0)
   \<and> fst (calendarService_deleteEvent (Some flaky_client) ''ev1'' demo_world)
       = Inl (AppError ''Failed to delete calendar event'' 500 ''CALENDAR_DELETE_FAILED'' None)
   \<and> status (fst (delete_event_route demo_runtime (Some flaky_client)
         (demo_request [''calendar.write''] []) demo_world)) = 500
   \<and> map_option err_code (error (fst (delete_event_route demo_runtime (Some flaky_client)
         (demo_request [''calendar.write''] []) demo_world))) = Some ''CALENDAR_DELETE_FAILED''
   \<and> events_delete flaky_client (ext demo_world) ''gone''
       = (Inl (JsError ''Error'' ''Event Not Found''), 0)
   \<and> fst (calendarService_deleteEvent (Some flaky_client) ''gone'' demo_world) = Inr False
   \<and> status (fst (delete_event_route demo_runtime (Some flaky_client)
         ((demo_request [''calendar.write''] [])\<lparr>eventId := Some ''gone''\<rparr>) demo_world)) = 404"
proof -
  have h1: "eventId (demo_request [''calendar.write''] []) = Some ''ev1''"
    by (simp add: demo_request_def)
  have h2: "''ev1'' \<noteq> []" by simp
  have h3: "''calendar.write'' \<in> granted_scopes (user (demo_request [''calendar.write''] []))"
    by (simp add: demo_request_def granted_scopes_def)
  have h4: "events_delete flaky_client (ext demo_world) ''ev1''
       = (Inl (JsError ''Error'' ''Backend Error''), 0)"
    by (simp add: flaky_client_def demo_world_def)
  have n: "\<not> (instanceof_Error (JsError ''Error'' ''Backend Error'')
       \<and> str_includes (error_message (JsError ''Error'' ''Backend Error'')) ''Not Found'')"
    by simp
  have g1: "eventId ((demo_request [''calendar.write''] [])\<lparr>eventId := Some ''gone''\<rparr>) = Some ''gone''"
    by simp
  have g2: "''gone'' \<noteq> []" by simp
  have g3: "''calendar.write'' \<in> granted_scopes
      (user ((demo_request [''calendar.write''] [])\<lparr>eventId := Some ''gone''\<rparr>))"
    by (simp add: demo_request_def granted_scopes_def)
  have g4: "events_delete flaky_client (ext demo_world) ''gone''
       = (Inl (JsError ''Error'' ''Event Not Found''), 0)"
    by (simp add: flaky_client_def demo_world_def)
  have y: "instanceof_Error (JsError ''Error'' ''Event Not Found'')
       \<and> str_includes (error_message (JsError ''Error'' ''Event Not Found'')) ''Not Found''"
    by simp
  from delete_event_provider_error [of "demo_request [''calendar.write''] []" "''ev1''"
      flaky_client demo_world "JsError ''Error'' ''Backend Error''" 0 demo_runtime, OF h1 h2 h3 h4] n
  have a: "fst (calendarService_deleteEvent (Some flaky_client) ''ev1'' demo_world)
       = Inl (AppError ''Failed to delete calendar event'' 500 ''CALENDAR_DELETE_FAILED'' None)
     \<and> status (fst (delete_event_route demo_runtime (Some flaky_client)
         (demo_request [''calendar.write''] []) demo_world)) = 500
     \<and> map_option err_code (error (fst (delete_event_route demo_runtime (Some flaky_client)
         (demo_request [''calendar.write''] []) demo_world))) = Some ''CALENDAR_DELETE_FAILED''"
    by presburger
  from delete_event_provider_error
      [of "(demo_request [''calendar.write''] [])\<lparr>eventId := Some ''gone''\<rparr>" "''gone''"
      flaky_client demo_world "JsError ''Error'' ''Event Not Found''" 0 demo_runtime, OF g1 g2 g3 g4] y
  have b: "fst (calendarService_deleteEvent (Some flaky_client) ''gone'' demo_world) = Inr False
     \<and> status (fst (delete_event_route demo_runtime (Some flaky_client)
         ((demo_request [''calendar.write''] [])\<lparr>eventId := Some ''gone''\<rparr>) demo_world)) = 404"
    by presburger
  from a b h1 h2 h3 h4 g4 show ?thesis by blast
qed

lemma getEvent_service_mock:
  "\<exists>ev w1. calendarService_getEvent rt None i w = (Some ev, w1)"
  by (simp add: calendarService_getEvent_def getMockEvent_def Date_now_def Let_def)

lemma deleteEvent_service_mock:
  "calendarService_deleteEvent None i w = (Inr True, log_call (DeleteEvent i) w)"
  by (simp add: calendarService_deleteEvent_def Let_def)

text \<open>
  C10: without a calendar client (mock mode) \<open>getEvent\<close> returns an event for every id and
  \<open>deleteEvent\<close> returns \<open>true\<close> for every id, so neither route answers 404: the branches
  \<open>EVENT_NOT_FOUND\<close> and \<open>EVENT_DELETE_FAILED\<close> of the controllers are not reached.
\<close>

theorem mock_mode_never_not_found:
  "fst (calendarService_getEvent rt None i w) \<noteq> None
   \<and> fst (calendarService_deleteEvent None i w) = Inr True
   \<and> status (fst (get_event_route rt None req w)) \<noteq> 404
   \<and> map_option err_code (error (fst (get_event_route rt None req w))) \<noteq> Some ''EVENT_NOT_FOUND''
   \<and> status (fst (delete_event_route rt None req w)) \<noteq> 404
   \<and> map_option err_code (error (fst (delete_event_route rt None req w))) \<noteq> Some ''EVENT_DELETE_FAILED''"
proof -
  obtain ev w1 where g: "calendarService_getEvent rt None (the (eventId req)) w = (Some ev, w1)"
    using getEvent_service_mock by blast
  have 1: "fst (calendarService_getEvent rt None i w) \<noteq> None"
    using getEvent_service_mock [of rt i w] by auto
  have 2: "fst (calendarService_deleteEvent None i w) = Inr True"
    by (simp add: deleteEvent_service_mock)
  have 3: "status (fst (get_event_route rt None req w)) \<noteq> 404
    \<and> map_option err_code (error (fst (get_event_route rt None req w))) \<noteq> Some ''EVENT_NOT_FOUND''"
    using g
    by (simp add: get_event_route_def getEvent_def calendar_respond_def calendar_errorHandler_def
        errorHandler_def Date_now_def)
  have 4: "status (fst (delete_event_route rt None req w)) \<noteq> 404
    \<and> map_option err_code (error (fst (delete_event_route rt None req w))) \<noteq> Some ''EVENT_DELETE_FAILED''"
    by (simp add: delete_event_route_def deleteEvent_def calendar_respond_def
      calendar_errorHandler_def errorHandler_def Date_now_def
        deleteEvent_service_mock)
  from 1 2 3 4 show ?thesis by simp
qed

section \<open>Agent A: properties of the process-emails route\<close>

lemma validateDate_calls: "validateDate rt d w = (r, w') \<Longrightarrow> calls w' = calls w"
  by (auto simp: validateDate_def Date_now_def Let_def split: js_any.splits option.splits if_splits)

lemma enhance_actions_calls:
  "enhance_actions rt email i as w = (r, w') \<Longrightarrow> calls w' = calls w"
proof (induction as arbitrary: i w r w')
  case Nil
  then show ?case by simp
next
  case (Cons a as)
  obtain d w1 where v: "validateDate rt (raw_suggestedDate a) w = (d, w1)"
    by (cases "validateDate rt (raw_suggestedDate a) w")
  obtain items w2 where e: "enhance_actions rt email (Suc i) as w1 = (items, w2)"
    by (cases "enhance_actions rt email (Suc i) as w1")
  from Cons.prems v e have "w' = w2" by (simp add: Let_def)
  with Cons.IH [OF e] validateDate_calls [OF v] show ?case by simp
qed

lemma validateAndEnhanceActions_calls:
  "validateAndEnhanceActions rt c email w = (r, w') \<Longrightarrow> calls w' = calls w"
  by (auto simp: validateAndEnhanceActions_def Let_def split: completion.splits prod.splits
      dest: enhance_actions_calls)

lemma extractActionItems_calls:
  "extractActionItems rt co email w = (r, w') \<Longrightarrow> calls w' = calls w @ [ChatCompletion (m_id email)]"
  by (auto simp: extractActionItems_def Let_def log_call_def
      split: prod.splits sum.splits completion.splits if_splits
      dest!: validateAndEnhanceActions_calls)

lemma process_message_calls:
  "process_message rt co mid w = (r, w') \<Longrightarrow>
     filter is_create_events_call (calls w') = filter is_create_events_call (calls w)"
  by (auto simp: process_message_def Let_def log_call_def
      split: prod.splits sum.splits dest!: extractActionItems_calls)

lemma process_messages_calls:
  "process_messages rt co mids items errs w = (r, w') \<Longrightarrow>
     filter is_create_events_call (calls w') = filter is_create_events_call (calls w)"
proof (induction mids arbitrary: items errs w)
  case Nil
  then show ?case by simp
next
  case (Cons mid mids)
  obtain res w1 where p: "process_message rt co mid w = (res, w1)"
    by (cases "process_message rt co mid w")
  show ?case
  proof (cases res)
    case (Inl err)
    with Cons.prems p have "process_messages rt co mids items
        (errs @ [(mid, if instanceof_Error err then error_message err else ''Unknown error'')]) w1
        = (r, w')" by simp
    from Cons.IH [OF this] process_message_calls [OF p] show ?thesis by simp
  next
    case (Inr item)
    with Cons.prems p have "process_messages rt co mids (items @ [item]) errs w1 = (r, w')"
      by simp
    from Cons.IH [OF this] process_message_calls [OF p] show ?thesis by simp
  qed
qed

text \<open>
  Steps 1 and 2 reach the mail gateway and the summarization engine only.
\<close>

lemma steps_1_2_calls:
  "processInbox_steps_1_2 rt co req w = (r, w') \<Longrightarrow>
     filter is_create_events_call (calls w') = filter is_create_events_call (calls w)"
  by (auto simp: processInbox_steps_1_2_def Let_def log_call_def
      split: sum.splits if_splits prod.splits dest!: process_messages_calls)

lemma steps_3_5_no_token:
  assumes "requestDelegatedToken co (ext w) jwt ''agent-b-calendar'' [''calendar.write''] = (Inr tok, s)"
    and "\<not> truthy tok"
  shows "processInbox_steps_3_5 rt co jwt items errs w =
     (Inl (AppError ''Failed to obtain delegated token for calendar operations'' 403
             ''DELEGATION_FAILED'' None),
      w\<lparr>calls := calls w @ [RequestDelegatedToken jwt ''agent-b-calendar'' [''calendar.write'']],
        ext := s\<rparr>)"
  using assms by (simp add: processInbox_steps_3_5_def log_call_def Let_def)

text \<open>
  C4: when a process-emails request reaches step 3 and the credential provider returns no
  usable token (\<open>null\<close> or the empty string), the whole operation answers 403 with code
  \<open>DELEGATION_FAILED\<close>. The token request is the last call made, and no create-events call to
  Agent B is made at any point of the request.
\<close>

theorem process_emails_delegation_failed:
  assumes "processInbox_steps_1_2 rt co req w = (Inr (jwt, items, errs), w1)"
    and "requestDelegatedToken co (ext w1) jwt ''agent-b-calendar'' [''calendar.write''] = (Inr tok, s)"
    and "\<not> truthy tok"
  shows "status (fst (post_process_emails rt co req w)) = 403
       \<and> map_option err_code (error (fst (post_process_emails rt co req w))) = Some ''DELEGATION_FAILED''
       \<and> calls (snd (post_process_emails rt co req w))
           = calls w1 @ [RequestDelegatedToken jwt ''agent-b-calendar'' [''calendar.write'']]
       \<and> filter is_create_events_call (calls (snd (post_process_emails rt co req w)))
           = filter is_create_events_call (calls w)"
proof -
  have "processInbox rt co req w =
     (Inl (AppError ''Failed to obtain delegated token for calendar operations'' 403
             ''DELEGATION_FAILED'' None),
      w1\<lparr>calls := calls w1 @ [RequestDelegatedToken jwt ''agent-b-calendar'' [''calendar.write'']],
         ext := s\<rparr>)"
    using assms(1) steps_3_5_no_token [OF assms(2,3)] by (simp add: processInbox_def)
  then show ?thesis
    using steps_1_2_calls [OF assms(1)]
    by (simp add: post_process_emails_def respond_def errorHandler_def Date_now_def)
qed

theorem process_emails_delegation_failed_witness:
  "processInbox_steps_1_2 demo_runtime (demo_collaborators [Obj undated_action] None)
       (inbox_request JAbsent) demo_inbox_world
     = (Inr (''t'', [demo_item], []),
        demo_inbox_world\<lparr>calls := [GetRecentEmails 5, GetEmailContent ''m1'', SummarizeEmail ''m1'',
                                    ChatCompletion ''m1'']\<rparr>)
   \<and> requestDelegatedToken (demo_collaborators [Obj undated_action] None)
         (ext (demo_inbox_world\<lparr>calls := [GetRecentEmails 5, GetEmailContent ''m1'',
                                             SummarizeEmail ''m1'', ChatCompletion ''m1'']\<rparr>))
         ''t'' ''agent-b-calendar'' [''calendar.write''] = (Inr None, ())
   \<and> \<not> truthy None
   \<and> status (fst (post_process_emails demo_runtime (demo_collaborators [Obj undated_action] None)
         (inbox_request JAbsent) demo_inbox_world)) = 403
   \<and> map_option err_code (error (fst (post_process_emails demo_runtime
         (demo_collaborators [Obj undated_action] None) (inbox_request JAbsent) demo_inbox_world)))
       = Some ''DELEGATION_FAILED''
   \<and> filter is_create_events_call (calls (snd (post_process_emails demo_runtime
         (demo_collaborators [Obj undated_action] None) (inbox_request JAbsent) demo_inbox_world)))
       = filter is_create_events_call (calls demo_inbox_world)"
proof -
  have h1: "processInbox_steps_1_2 demo_runtime (demo_collaborators [Obj undated_action] None)
       (inbox_request JAbsent) demo_inbox_world
     = (Inr (''t'', [demo_item], []),
        demo_inbox_world\<lparr>calls := [GetRecentEmails 5, GetEmailContent ''m1'', SummarizeEmail ''m1'',
                                    ChatCompletion ''m1'']\<rparr>)"
    by (simp add: processInbox_steps_1_2_def validateProcessEmailsRequest_def joi_maxResults_def
        inbox_request_def demo_collaborators_def demo_inbox_world_def process_message_def
        extractActionItems_def validateAndEnhanceActions_def validateDate_def undated_action_def
        demo_email_def demo_item_def truthy_def trim_def is_space_def validatePriority_def
        validateType_def log_call_def Let_def digits.simps)
  have h2: "requestDelegatedToken (demo_collaborators [Obj undated_action] None)
         (ext (demo_inbox_world\<lparr>calls := [GetRecentEmails 5, GetEmailContent ''m1'',
                                             SummarizeEmail ''m1'', ChatCompletion ''m1'']\<rparr>))
         ''t'' ''agent-b-calendar'' [''calendar.write''] = (Inr None, ())"
    by (simp add: demo_collaborators_def)
  have h3: "\<not> truthy None" by (simp add: truthy_def)
  from process_emails_delegation_failed [OF h1 h2 h3] h1 h2 h3 show ?thesis by blast
qed

lemma joi_maxResults_absent: "joi_maxResults coerce JAbsent = Inr 5"
  by (simp add: joi_maxResults_def)

lemma integer_in_range:
  fixes r :: rat
  assumes "r = of_int \<lfloor>r\<rfloor>" and "\<not> r < 1" and "\<not> 50 < r"
  shows "1 \<le> \<lfloor>r\<rfloor> \<and> \<lfloor>r\<rfloor> \<le> 50"
proof -
  obtain k where k: "r = of_int k" using assms(1) ..
  with assms(2,3) show ?thesis by simp
qed

lemma joi_rules_accept:
  fixes r :: rat
  assumes "(if r > 9007199254740991 \<or> r < - 9007199254740991 then Inl ''number.unsafe''
            else if r \<noteq> of_int \<lfloor>r\<rfloor> then Inl ''number.integer''
            else if r < 1 then Inl ''number.min''
            else if r > 50 then Inl ''number.max''
            else Inr \<lfloor>r\<rfloor>) = (Inr n :: string + int)"
  shows "1 \<le> n \<and> n \<le> 50 \<and> of_int n = r"
proof -
  from assms have i: "r = of_int \<lfloor>r\<rfloor>" and l: "\<not> r < 1" and u: "\<not> 50 < r" and n: "n = \<lfloor>r\<rfloor>"
    by (auto split: if_splits)
  from integer_in_range [OF i l u] i n show ?thesis by simp
qed

text \<open>
  What the schema accepts: 5 for an absent field, else the integer between 1 and 50 that the
  field holds.
\<close>

lemma joi_maxResults_accept:
  assumes "joi_maxResults coerce v = Inr n"
  shows "1 \<le> n \<and> n \<le> 50 \<and> (v = JAbsent \<and> n = 5 \<or> field_number coerce v = Some (of_int n))"
proof (cases v)
  case JAbsent
  with assms show ?thesis by (simp add: joi_maxResults_def)
next
  case (JNumber r)
  with assms joi_rules_accept [of r n] show ?thesis
    by (simp add: joi_maxResults_def field_number_def)
next
  case (JString t)
  show ?thesis
  proof (cases "coerce t")
    case None
    with assms JString show ?thesis by (simp add: joi_maxResults_def)
  next
    case (Some r)
    with assms JString joi_rules_accept [of r n] show ?thesis
      by (simp add: joi_maxResults_def field_number_def)
  qed
next
  case JOther
  with assms show ?thesis by (simp add: joi_maxResults_def)
qed

lemma joi_maxResults_reject:
  assumes "v \<noteq> JAbsent" and "\<forall>n. 1 \<le> n \<and> n \<le> 50 \<longrightarrow> field_number coerce v \<noteq> Some (of_int n)"
  shows "\<exists>e. joi_maxResults coerce v = Inl e"
proof (cases "joi_maxResults coerce v")
  case (Inl e)
  then show ?thesis by simp
next
  case (Inr n)
  from joi_maxResults_accept [OF Inr] assms show ?thesis by auto
qed

lemma processInbox_rejected:
  assumes "validateProcessEmailsRequest (number_of_string rt) (body req) = Inl d"
  shows "post_process_emails rt co req w =
     (\<lparr>status = 400, success = False, data = None,
       error = Some \<lparr>err_message = ''Invalid request parameters'', err_code = ''VALIDATION_ERROR'',
                     err_details = Some d\<rparr>,
       timestamp = toISOString rt (clock w (reads w))\<rparr>, w\<lparr>reads := Suc (reads w)\<rparr>)"
  using assms
  by (simp add: post_process_emails_def processInbox_def processInbox_steps_1_2_def respond_def
      errorHandler_def Date_now_def)


text \<open>
  What the schema accepts, the other way round: a field that holds an integer between 1 and 50,
  as a number or as a string the conversion reads as one, passes with that integer.
\<close>

lemma joi_maxResults_in_range:
  assumes "1 \<le> k" and "k \<le> 50" and "field_number coerce v = Some (of_int k)"
  shows "joi_maxResults coerce v = Inr k"
proof -
  have r: "(if (of_int k :: rat) > 9007199254740991 \<or> (of_int k :: rat) < - 9007199254740991
            then Inl ''number.unsafe''
            else if (of_int k :: rat) \<noteq> of_int \<lfloor>(of_int k :: rat)\<rfloor> then Inl ''number.integer''
            else if (of_int k :: rat) < 1 then Inl ''number.min''
            else if (of_int k :: rat) > 50 then Inl ''number.max''
            else Inr \<lfloor>(of_int k :: rat)\<rfloor>) = (Inr k :: string + int)"
    using assms(1,2) by simp
  show ?thesis
  proof (cases v)
    case JAbsent
    with assms(3) show ?thesis by (simp add: field_number_def)
  next
    case (JNumber x)
    with assms(3) have "x = of_int k" by (simp add: field_number_def)
    with JNumber r show ?thesis by (simp add: joi_maxResults_def)
  next
    case (JString t)
    with assms(3) have "coerce t = Some (of_int k)" by (simp add: field_number_def)
    with JString r show ?thesis by (simp add: joi_maxResults_def)
  next
    case JOther
    with assms(3) show ?thesis by (simp add: field_number_def)
  qed
qed

text \<open>
  C8: the \<open>maxResults\<close> field. When it is absent the value is 5. A field that holds an
  integer between 1 and 50, both ends included, is accepted with that integer; the field holds
  it as a JSON number or as a string that Joi's conversion reads as that number. A value is
  accepted only in these cases. A field that is present and does not hold an integer between
  1 and 50 is rejected with status 400 and code \<open>VALIDATION_ERROR\<close>, before any downstream
  call: the log of calls and the state of the collaborators are what they were.
\<close>

theorem process_emails_maxResults_validation:
  "(maxResults (body req) = JAbsent \<and> other_keys (body req) = [] \<longrightarrow>
      validateProcessEmailsRequest (number_of_string rt) (body req) = Inr 5)
   \<and> (1 \<le> k \<and> k \<le> 50
        \<and> field_number (number_of_string rt) (maxResults (body req)) = Some (of_int k)
        \<and> other_keys (body req) = [] \<longrightarrow>
        validateProcessEmailsRequest (number_of_string rt) (body req) = Inr k)
   \<and> (validateProcessEmailsRequest (number_of_string rt) (body req) = Inr n \<longrightarrow>
        1 \<le> n \<and> n \<le> 50
        \<and> (maxResults (body req) = JAbsent \<and> n = 5
           \<or> field_number (number_of_string rt) (maxResults (body req)) = Some (of_int n)))
   \<and> (maxResults (body req) \<noteq> JAbsent
        \<and> (\<forall>k. 1 \<le> k \<and> k \<le> 50 \<longrightarrow>
               field_number (number_of_string rt) (maxResults (body req)) \<noteq> Some (of_int k)) \<longrightarrow>
        status (fst (post_process_emails rt co req w)) = 400
        \<and> map_option err_code (error (fst (post_process_emails rt co req w))) = Some ''VALIDATION_ERROR''
        \<and> calls (snd (post_process_emails rt co req w)) = calls w
        \<and> ext (snd (post_process_emails rt co req w)) = ext w)"
proof (intro conjI impI)
  assume "maxResults (body req) = JAbsent \<and> other_keys (body req) = []"
  then show "validateProcessEmailsRequest (number_of_string rt) (body req) = Inr 5"
    by (simp add: validateProcessEmailsRequest_def joi_maxResults_absent)
next
  assume a: "1 \<le> k \<and> k \<le> 50
        \<and> field_number (number_of_string rt) (maxResults (body req)) = Some (of_int k)
        \<and> other_keys (body req) = []"
  then have "joi_maxResults (number_of_string rt) (maxResults (body req)) = Inr k"
    by (simp add: joi_maxResults_in_range)
  with a show "validateProcessEmailsRequest (number_of_string rt) (body req) = Inr k"
    by (simp add: validateProcessEmailsRequest_def)
next
  assume v: "validateProcessEmailsRequest (number_of_string rt) (body req) = Inr n"
  then have j: "joi_maxResults (number_of_string rt) (maxResults (body req)) = Inr n"
    by (auto simp: validateProcessEmailsRequest_def split: sum.splits if_splits)
  from joi_maxResults_accept [OF j] show "1 \<le> n" and "n \<le> 50"
    and "maxResults (body req) = JAbsent \<and> n = 5
           \<or> field_number (number_of_string rt) (maxResults (body req)) = Some (of_int n)"
    by simp_all
next
  assume a: "maxResults (body req) \<noteq> JAbsent
        \<and> (\<forall>k. 1 \<le> k \<and> k \<le> 50 \<longrightarrow>
               field_number (number_of_string rt) (maxResults (body req)) \<noteq> Some (of_int k))"
  then obtain e where "joi_maxResults (number_of_string rt) (maxResults (body req)) = Inl e"
    using joi_maxResults_reject by blast
  then have r: "validateProcessEmailsRequest (number_of_string rt) (body req) = Inl [e]"
    by (simp add: validateProcessEmailsRequest_def)
  show "status (fst (post_process_emails rt co req w)) = 400"
    and "map_option err_code (error (fst (post_process_emails rt co req w))) = Some ''VALIDATION_ERROR''"
    and "calls (snd (post_process_emails rt co req w)) = calls w"
    and "ext (snd (post_process_emails rt co req w)) = ext w"
    by (simp_all add: processInbox_rejected [OF r])
qed

theorem process_emails_maxResults_validation_witness:
  "validateProcessEmailsRequest (number_of_string demo_runtime) (body (inbox_request JAbsent)) = Inr 5
   \<and> validateProcessEmailsRequest (number_of_string demo_runtime)
        (body (inbox_request (JNumber 1))) = Inr 1
   \<and> validateProcessEmailsRequest (number_of_string demo_runtime)
        (body (inbox_request (JNumber 50))) = Inr 50
   \<and> validateProcessEmailsRequest (number_of_string coercing_runtime)
        (body (inbox_request (JString ''7''))) = Inr 7
   \<and> validateProcessEmailsRequest (number_of_string demo_runtime)
        (body (inbox_request (JNumber 7))) = Inr 7
   \<and> (1::int) \<le> 7 \<and> (7::int) \<le> 50
   \<and> status (fst (post_process_emails demo_runtime (demo_collaborators [] None)
         (inbox_request (JNumber 51)) demo_inbox_world)) = 400
   \<and> map_option err_code (error (fst (post_process_emails demo_runtime (demo_collaborators [] None)
         (inbox_request (JNumber 51)) demo_inbox_world))) = Some ''VALIDATION_ERROR''
   \<and> calls (snd (post_process_emails demo_runtime (demo_collaborators [] None)
         (inbox_request (JNumber 51)) demo_inbox_world)) = calls demo_inbox_world
   \<and> ext (snd (post_process_emails demo_runtime (demo_collaborators [] None)
         (inbox_request (JNumber 51)) demo_inbox_world)) = ext demo_inbox_world
   \<and> status (fst (post_process_emails demo_runtime (demo_collaborators [] None)
         (inbox_request (JNumber 0)) demo_inbox_world)) = 400
   \<and> status (fst (post_process_emails demo_runtime (demo_collaborators [] None)
         (inbox_request (JNumber (5 / 2))) demo_inbox_world)) = 400"
proof -
  note T = process_emails_maxResults_validation
  have a: "maxResults (body (inbox_request JAbsent)) = JAbsent
           \<and> other_keys (body (inbox_request JAbsent)) = []"
    by (simp add: inbox_request_def)
  have lo: "(1::int) \<le> 1 \<and> (1::int) \<le> 50
        \<and> field_number (number_of_string demo_runtime) (maxResults (body (inbox_request (JNumber 1))))
            = Some (of_int 1)
        \<and> other_keys (body (inbox_request (JNumber 1))) = []"
    by (simp add: inbox_request_def field_number_def)
  have hi: "(1::int) \<le> 50 \<and> (50::int) \<le> 50
        \<and> field_number (number_of_string demo_runtime) (maxResults (body (inbox_request (JNumber 50))))
            = Some (of_int 50)
        \<and> other_keys (body (inbox_request (JNumber 50))) = []"
    by (simp add: inbox_request_def field_number_def)
  have st: "(1::int) \<le> 7 \<and> (7::int) \<le> 50
        \<and> field_number (number_of_string coercing_runtime)
              (maxResults (body (inbox_request (JString ''7'')))) = Some (of_int 7)
        \<and> other_keys (body (inbox_request (JString ''7''))) = []"
    by (simp add: inbox_request_def field_number_def coercing_runtime_def)
  have b: "validateProcessEmailsRequest (number_of_string demo_runtime)
             (body (inbox_request (JNumber 7))) = Inr 7"
    by (simp add: validateProcessEmailsRequest_def joi_maxResults_def inbox_request_def)
  have c: "maxResults (body (inbox_request (JNumber 51))) \<noteq> JAbsent
      \<and> (\<forall>k. 1 \<le> k \<and> k \<le> 50 \<longrightarrow>
             field_number (number_of_string demo_runtime) (maxResults (body (inbox_request (JNumber 51))))
               \<noteq> Some (of_int k))"
    by (auto simp: inbox_request_def field_number_def)
  have z: "maxResults (body (inbox_request (JNumber 0))) \<noteq> JAbsent
      \<and> (\<forall>k. 1 \<le> k \<and> k \<le> 50 \<longrightarrow>
             field_number (number_of_string demo_runtime) (maxResults (body (inbox_request (JNumber 0))))
               \<noteq> Some (of_int k))"
    by (auto simp: inbox_request_def field_number_def)
  have "(5::rat) / 2 \<noteq> of_int k" for k :: int
  proof
    assume "(5::rat) / 2 = of_int k"
    then have "(of_int 5 :: rat) = of_int (2 * k)" by simp
    then have "(5::int) = 2 * k" by (simp only: of_int_eq_iff)
    then show False by presburger
  qed
  then have d: "maxResults (body (inbox_request (JNumber (5 / 2)))) \<noteq> JAbsent
      \<and> (\<forall>k. 1 \<le> k \<and> k \<le> 50 \<longrightarrow>
             field_number (number_of_string demo_runtime)
               (maxResults (body (inbox_request (JNumber (5 / 2))))) \<noteq> Some (of_int k))"
    by (simp add: inbox_request_def field_number_def)
  note A = T [where req = "inbox_request JAbsent" and rt = demo_runtime,
              THEN conjunct1, THEN mp, OF a]
  have L: "validateProcessEmailsRequest (number_of_string demo_runtime)
        (body (inbox_request (JNumber 1))) = Inr 1"
    by (rule T [where req = "inbox_request (JNumber 1)" and rt = demo_runtime and k = 1,
                THEN conjunct2, THEN conjunct1, THEN mp, OF lo])
  have H: "validateProcessEmailsRequest (number_of_string demo_runtime)
        (body (inbox_request (JNumber 50))) = Inr 50"
    by (rule T [where req = "inbox_request (JNumber 50)" and rt = demo_runtime and k = 50,
                THEN conjunct2, THEN conjunct1, THEN mp, OF hi])
  have S: "validateProcessEmailsRequest (number_of_string coercing_runtime)
        (body (inbox_request (JString ''7''))) = Inr 7"
    by (rule T [where req = "inbox_request (JString ''7'')" and rt = coercing_runtime and k = 7,
                THEN conjunct2, THEN conjunct1, THEN mp, OF st])
  note B = T [where req = "inbox_request (JNumber 7)" and rt = demo_runtime and n = 7,
              THEN conjunct2, THEN conjunct2, THEN conjunct1, THEN mp, OF b]
  note C = T [where req = "inbox_request (JNumber 51)" and rt = demo_runtime
                and co = "demo_collaborators [] None" and w = demo_inbox_world,
              THEN conjunct2, THEN conjunct2, THEN conjunct2, THEN mp, OF c]
  note Z = T [where req = "inbox_request (JNumber 0)" and rt = demo_runtime
                and co = "demo_collaborators [] None" and w = demo_inbox_world,
              THEN conjunct2, THEN conjunct2, THEN conjunct2, THEN mp, OF z]
  note D = T [where req = "inbox_request (JNumber (5 / 2))" and rt = demo_runtime
                and co = "demo_collaborators [] None" and w = demo_inbox_world,
              THEN conjunct2, THEN conjunct2, THEN conjunct2, THEN mp, OF d]
  have B1: "(1::int) \<le> 7" and B2: "(7::int) \<le> 50" using B by simp_all
  from C have C1: "status (fst (post_process_emails demo_runtime (demo_collaborators [] None)
         (inbox_request (JNumber 51)) demo_inbox_world)) = 400"
    and C2: "map_option err_code (error (fst (post_process_emails demo_runtime
         (demo_collaborators [] None) (inbox_request (JNumber 51)) demo_inbox_world)))
       = Some ''VALIDATION_ERROR''"
    and C3: "calls (snd (post_process_emails demo_runtime (demo_collaborators [] None)
         (inbox_request (JNumber 51)) demo_inbox_world)) = calls demo_inbox_world"
    and C4: "ext (snd (post_process_emails demo_runtime (demo_collaborators [] None)
         (inbox_request (JNumber 51)) demo_inbox_world)) = ext demo_inbox_world"
    by blast+
  from Z have Z1: "status (fst (post_process_emails demo_runtime (demo_collaborators [] None)
         (inbox_request (JNumber 0)) demo_inbox_world)) = 400"
    by (rule conjunct1)
  from D have D1: "status (fst (post_process_emails demo_runtime (demo_collaborators [] None)
         (inbox_request (JNumber (5 / 2))) demo_inbox_world)) = 400"
    by (rule conjunct1)
  from A L H S b B1 B2 C1 C2 C3 C4 Z1 D1 show ?thesis by (intro conjI)
qed

text \<open>
  The draft of an action item: without a suggested date it starts 24 hours after one clock
  reading and ends 25 hours after the next; with one it starts at that date and ends one hour
  after the time the date parses to.
\<close>

lemma action_event_undated:
  assumes "\<not> truthy (a_suggestedDate action)"
  shows "\<exists>ev. action_event rt item action w = (Inr ev, w\<lparr>reads := Suc (Suc (reads w))\<rparr>)
          \<and> d_startTime ev = Some (toISOString rt (clock w (reads w) + 86400000))
          \<and> d_endTime ev = Some (toISOString rt (clock w (Suc (reads w)) + 90000000))"
  using assms by (simp add: action_event_def Date_now_def Let_def)

lemma action_event_dated:
  assumes "a_suggestedDate action = Some sd" and "sd \<noteq> []"
    and "Date_parse rt sd = Some t" and "\<bar>t + 3600000\<bar> \<le> 8640000000000000"
  shows "\<exists>ev. action_event rt item action w = (Inr ev, w)
          \<and> d_startTime ev = Some sd
          \<and> d_endTime ev = Some (toISOString rt (t + 3600000))"
  using assms by (simp add: action_event_def Date_toISOString_def truthy_def Let_def)

text \<open>
  A suggested date survives the validation only when it parses and is not earlier than the
  clock reading of the validation; it is then the ISO form of the parsed time.
\<close>

lemma validateDate_Some:
  assumes "validateDate rt date w = (Some sd, w')"
  shows "\<exists>d t. date = Str d \<and> Date_parse rt d = Some t \<and> clock w (reads w) \<le> t
           \<and> sd = toISOString rt t"
  using assms
  by (auto simp: validateDate_def Date_now_def Let_def split: js_any.splits option.splits if_splits)

lemma validateDate_None:
  assumes "\<forall>d t. date = Str d \<and> Date_parse rt d = Some t \<longrightarrow> t < clock w (reads w)"
  shows "fst (validateDate rt date w) = None"
  using assms
  by (auto simp: validateDate_def Date_now_def Let_def split: js_any.splits option.splits if_splits)

text \<open>
  When the runtime parses what it prints and the clock gives the same reading twice, the draft
  of a validated action item ends one hour after it starts. The second hypothesis is what
  the default branch needs: it reads the clock once for each of the two times.
\<close>

lemma action_event_one_hour:
  assumes roundtrip: "\<forall>t. Date_parse rt (toISOString rt t) = Some t"
    and built: "action_event rt item action w = (Inr ev, w')"
    and validated: "a_suggestedDate action = None
                    \<or> (\<exists>t. a_suggestedDate action = Some (toISOString rt t))"
    and steady: "clock w (Suc (reads w)) = clock w (reads w)"
  shows "\<exists>t. d_startTime ev = Some (toISOString rt t)
            \<and> d_endTime ev = Some (toISOString rt (t + 3600000))"
proof (cases "truthy (a_suggestedDate action)")
  case False
  from action_event_undated [OF False, of rt item w] built steady show ?thesis
    by (auto simp: add.commute)
next
  case True
  with validated obtain t where t: "a_suggestedDate action = Some (toISOString rt t)"
    by (auto simp: truthy_def)
  from True t have ne: "toISOString rt t \<noteq> []" by (simp add: truthy_def)
  from roundtrip have p: "Date_parse rt (toISOString rt t) = Some t" by simp
  from built True t p have "\<bar>t + 3600000\<bar> \<le> 8640000000000000"
    by (auto simp: action_event_def Date_toISOString_def Let_def split: if_splits)
  from action_event_dated [OF t ne p this, of item w] built show ?thesis by auto
qed

text \<open>
  C5: one message whose only action item has no suggested date, and a clock that advances by
  one millisecond per reading, starting at 1000. The draft sent to Agent B starts at
  \<open>1000 + 24h = 86401000\<close> and ends at \<open>1001 + 25h = 90001001\<close>: the end time comes from a
  second reading of the clock and is one hour and one millisecond after the start time, where
  the claim asks for one hour.
\<close>

theorem process_emails_default_end_time:
  "sent_times (calls (snd (post_process_emails rt (demo_collaborators [Obj undated_action] (Some ''tok''))
      (inbox_request JAbsent) demo_inbox_world)))
   = [(Some (toISOString rt 86401000), Some (toISOString rt 90001001))]"
  by (simp add: post_process_emails_def processInbox_def processInbox_steps_1_2_def
      processInbox_steps_3_5_def respond_def validateProcessEmailsRequest_def joi_maxResults_def
      inbox_request_def demo_collaborators_def demo_inbox_world_def process_message_def
      extractActionItems_def validateAndEnhanceActions_def validateDate_def undated_action_def
      demo_email_def action_event_def truthy_def trim_def is_space_def validatePriority_def
      validateType_def log_call_def Date_now_def Let_def digits.simps)

end
